theory Spec2Isabelle
  imports Main
begin

section \<open>JavaScript values used by the Task model\<close>

text \<open>
  A string is a list of UTF-16 code units, and its length is the number of them, as
  \<open>String.prototype.length\<close> counts. A character of the model is a code unit in the range
  U+0000 to U+00FF; a string with a code unit above that range is outside the model. On
  this range the built-in methods are written out in full. \<open>toLowerCase\<close> adds 32 to the
  code units U+0041 to U+005A and U+00C0 to U+00DE, the multiplication sign U+00D7
  excepted, and leaves every other code unit alone. \<open>trim\<close> strips from both ends the white
  space and line terminators of the language: U+0009 to U+000D, U+0020 and U+00A0.
  Dates are their time value, the number of milliseconds since the epoch; \<open>new Date()\<close> is
  the argument \<open>now\<close> of every function that reads the clock. An ObjectId is an opaque
  number.
\<close>

type_synonym date = int
type_synonym object_id = nat

definition toLowerCase_char :: "char \<Rightarrow> char" where
  "toLowerCase_char c =
     (let n = (of_char c :: nat)
      in if (65 \<le> n \<and> n \<le> 90) \<or> (192 \<le> n \<and> n \<le> 222 \<and> n \<noteq> 215)
         then char_of (n + 32) else c)"

definition toLowerCase :: "string \<Rightarrow> string" where
  "toLowerCase s = map toLowerCase_char s"

definition isWhiteSpace :: "char \<Rightarrow> bool" where
  "isWhiteSpace c =
     (let n = (of_char c :: nat) in (9 \<le> n \<and> n \<le> 13) \<or> n = 32 \<or> n = 160)"

definition trim :: "string \<Rightarrow> string" where
  "trim s = rev (dropWhile isWhiteSpace (rev (dropWhile isWhiteSpace s)))"

text \<open>\<open>Array.prototype.indexOf\<close>: the first index holding the value, \<open>-1\<close> when there is none.\<close>

fun indexOf :: "'a list \<Rightarrow> 'a \<Rightarrow> int" where
  "indexOf [] x = -1"
| "indexOf (y # ys) x =
     (if y = x then 0 else (let i = indexOf ys x in if i < 0 then -1 else i + 1))"

text \<open>
  \<open>Array.prototype.filter\<close> with the three-argument callback \<open>(element, index, array)\<close>.
\<close>

fun filter_from :: "nat \<Rightarrow> ('a \<Rightarrow> nat \<Rightarrow> 'a list \<Rightarrow> bool) \<Rightarrow> 'a list \<Rightarrow> 'a list \<Rightarrow> 'a list" where
  "filter_from i f arr [] = []"
| "filter_from i f arr (x # xs) =
     (if f x i arr then x # filter_from (Suc i) f arr xs else filter_from (Suc i) f arr xs)"

definition filter_indexed :: "('a \<Rightarrow> nat \<Rightarrow> 'a list \<Rightarrow> bool) \<Rightarrow> 'a list \<Rightarrow> 'a list" where
  "filter_indexed f arr = filter_from 0 f arr arr"

text \<open>
  The value of a chain \<open>a && b && c\<close> whose first operand may be \<open>undefined\<close> and whose
  other operands are comparisons: \<open>undefined\<close> or a boolean.
\<close>

datatype js_result = JUndefined | JBool bool

section \<open>The Task schema (server/src/models/Task.ts)\<close>

text \<open>
  The enums \<open>TaskStatus\<close> and \<open>TaskPriority\<close> are string enums; their values are the ones
  the schema's own messages and the client's colour tables list.
\<close>

definition TaskStatus_TODO :: string where "TaskStatus_TODO = ''todo''"
definition TaskStatus_IN_PROGRESS :: string where "TaskStatus_IN_PROGRESS = ''in-progress''"
definition TaskStatus_DONE :: string where "TaskStatus_DONE = ''done''"

definition TaskStatus_values :: "string list" where
  "TaskStatus_values = [TaskStatus_TODO, TaskStatus_IN_PROGRESS, TaskStatus_DONE]"

definition TaskPriority_LOW :: string where "TaskPriority_LOW = ''low''"
definition TaskPriority_MEDIUM :: string where "TaskPriority_MEDIUM = ''medium''"
definition TaskPriority_HIGH :: string where "TaskPriority_HIGH = ''high''"
definition TaskPriority_URGENT :: string where "TaskPriority_URGENT = ''urgent''"

definition TaskPriority_values :: "string list" where
  "TaskPriority_values =
     [TaskPriority_LOW, TaskPriority_MEDIUM, TaskPriority_HIGH, TaskPriority_URGENT]"

text \<open>
  The object handed to \<open>new Task(...)\<close> or \<open>Task.create(...)\<close>: every field may be absent.
\<close>

record task_input =
  i_title :: "string option"
  i_description :: "string option"
  i_status :: "string option"
  i_priority :: "string option"
  i_dueDate :: "date option"
  i_tags :: "string list option"
  i_assignee :: "object_id option"
  i_createdBy :: "object_id option"

text \<open>
  A Task document. Paths without a default hold \<open>None\<close> while they are undefined; the
  paths \<open>status\<close>, \<open>priority\<close> and \<open>tags\<close> have defaults. The \<open>createdAt\<close> and
  \<open>updatedAt\<close> stamps play no part in what follows and are left out.
\<close>

record task_doc =
  task_id :: object_id
  title :: "string option"
  description :: "string option"
  status :: string
  priority :: string
  dueDate :: "date option"
  tags :: "string list"
  assignee :: "object_id option"
  createdBy :: "object_id option"

text \<open>
  Errors as the error handler tells them apart: an \<open>AppError\<close> carries its status code and
  message, a Mongoose \<open>ValidationError\<close> carries one (path, message) entry per failing path.
\<close>

datatype error = AppError nat string | ValidationError "(string \<times> string) list"

text \<open>
  A document in memory carries, beside its data, the state of its paths. Mongoose keeps a
  path in at most one of the states \<open>require\<close>, \<open>modify\<close>, \<open>init\<close> and \<open>default\<close>, and
  validation visits exactly the paths that are in one of them.
\<close>

datatype path_state = Require | Modify | Init | Default

record task_instance =
  doc :: task_doc
  activePaths :: "(string \<times> path_state) list"

definition schema_paths :: "string list" where
  "schema_paths =
     [''title'', ''description'', ''status'', ''priority'', ''dueDate'', ''tags'',
      ''assignee'', ''createdBy'']"

definition required_paths :: "string list" where
  "required_paths = [''title'', ''assignee'', ''createdBy'']"

definition default_paths :: "string list" where
  "default_paths = [''status'', ''priority'', ''tags'']"

definition is_active :: "(string \<times> path_state) list \<Rightarrow> string \<Rightarrow> bool" where
  "is_active sts p = (p \<in> set (map fst sts))"

text \<open>The paths of the schema that a state function puts in a state, in the schema's order.\<close>

definition path_states :: "(string \<Rightarrow> path_state option) \<Rightarrow> (string \<times> path_state) list" where
  "path_states f =
     concat (map (\<lambda>p. case f p of None \<Rightarrow> [] | Some s \<Rightarrow> [(p, s)]) schema_paths)"

text \<open>Whether the object handed to the constructor gives a value to a path.\<close>

definition supplied :: "task_input \<Rightarrow> string \<Rightarrow> bool" where
  "supplied inp p =
     (if p = ''title'' then i_title inp \<noteq> None
      else if p = ''description'' then i_description inp \<noteq> None
      else if p = ''status'' then i_status inp \<noteq> None
      else if p = ''priority'' then i_priority inp \<noteq> None
      else if p = ''dueDate'' then i_dueDate inp \<noteq> None
      else if p = ''tags'' then i_tags inp \<noteq> None
      else if p = ''assignee'' then i_assignee inp \<noteq> None
      else if p = ''createdBy'' then i_createdBy inp \<noteq> None
      else False)"

text \<open>
  Constructing a document: the \<open>trim: true\<close> setters of \<open>title\<close> and \<open>description\<close> run,
  and absent \<open>status\<close>, \<open>priority\<close> and \<open>tags\<close> take their defaults. A path given a value
  is in state \<open>modify\<close>, a defaulted one in state \<open>default\<close>, a required path without a
  value in state \<open>require\<close>.
\<close>

definition new_Task :: "object_id \<Rightarrow> task_input \<Rightarrow> task_instance" where
  "new_Task oid inp =
     \<lparr> doc =
         \<lparr> task_id = oid,
           title = map_option trim (i_title inp),
           description = map_option trim (i_description inp),
           status = (case i_status inp of None \<Rightarrow> TaskStatus_TODO | Some s \<Rightarrow> s),
           priority = (case i_priority inp of None \<Rightarrow> TaskPriority_MEDIUM | Some p \<Rightarrow> p),
           dueDate = i_dueDate inp,
           tags = (case i_tags inp of None \<Rightarrow> [] | Some ts \<Rightarrow> ts),
           assignee = i_assignee inp,
           createdBy = i_createdBy inp \<rparr>,
       activePaths =
         path_states (\<lambda>p. if supplied inp p then Some Modify
                           else if p \<in> set default_paths then Some Default
                           else if p \<in> set required_paths then Some Require
                           else None) \<rparr>"

text \<open>
  The document a query returns for a stored task: every path that has a value is in state
  \<open>init\<close>.
\<close>

definition has_value :: "task_doc \<Rightarrow> string \<Rightarrow> bool" where
  "has_value d p =
     (if p = ''title'' then title d \<noteq> None
      else if p = ''description'' then description d \<noteq> None
      else if p = ''dueDate'' then dueDate d \<noteq> None
      else if p = ''assignee'' then assignee d \<noteq> None
      else if p = ''createdBy'' then createdBy d \<noteq> None
      else True)"

definition hydrate :: "task_doc \<Rightarrow> task_instance" where
  "hydrate d =
     \<lparr> doc = d,
       activePaths =
         path_states (\<lambda>p. if has_value d p then Some Init
                           else if p \<in> set required_paths then Some Require
                           else None) \<rparr>"

text \<open>
  Assigning to a path of a document that has been saved or loaded: the new value, after
  the path's setter, replaces the old one, and the path moves to state \<open>modify\<close>;
  assigning the value the path already has changes nothing.
\<close>

definition mark_modified :: "string \<Rightarrow> (string \<times> path_state) list \<Rightarrow> (string \<times> path_state) list" where
  "mark_modified p sts = (p, Modify) # filter (\<lambda>(q, s). q \<noteq> p) sts"

definition assign :: "string \<Rightarrow> (task_doc \<Rightarrow> task_doc) \<Rightarrow> task_instance \<Rightarrow> task_instance" where
  "assign p upd inst =
     (if upd (doc inst) = doc inst then inst
      else \<lparr> doc = upd (doc inst), activePaths = mark_modified p (activePaths inst) \<rparr>)"

definition set_title :: "string \<Rightarrow> task_instance \<Rightarrow> task_instance" where
  "set_title v = assign ''title'' (\<lambda>d. d\<lparr>title := Some (trim v)\<rparr>)"

definition set_description :: "string \<Rightarrow> task_instance \<Rightarrow> task_instance" where
  "set_description v = assign ''description'' (\<lambda>d. d\<lparr>description := Some (trim v)\<rparr>)"

definition set_status :: "string \<Rightarrow> task_instance \<Rightarrow> task_instance" where
  "set_status v = assign ''status'' (\<lambda>d. d\<lparr>status := v\<rparr>)"

definition set_priority :: "string \<Rightarrow> task_instance \<Rightarrow> task_instance" where
  "set_priority v = assign ''priority'' (\<lambda>d. d\<lparr>priority := v\<rparr>)"

definition set_dueDate :: "date \<Rightarrow> task_instance \<Rightarrow> task_instance" where
  "set_dueDate v = assign ''dueDate'' (\<lambda>d. d\<lparr>dueDate := Some v\<rparr>)"

definition set_tags :: "string list \<Rightarrow> task_instance \<Rightarrow> task_instance" where
  "set_tags v = assign ''tags'' (\<lambda>d. d\<lparr>tags := v\<rparr>)"

definition set_assignee :: "object_id \<Rightarrow> task_instance \<Rightarrow> task_instance" where
  "set_assignee v = assign ''assignee'' (\<lambda>d. d\<lparr>assignee := Some v\<rparr>)"

text \<open>
  The validators, path by path. A \<open>required\<close> string fails when it is undefined or empty;
  every other validator is skipped on an undefined value. The \<open>dueDate\<close> validator is
  \<open>!value || value > new Date()\<close>, and a Date object is never falsy.
\<close>

definition dueDate_validator :: "date \<Rightarrow> date \<Rightarrow> bool" where
  "dueDate_validator now v = (v > now)"

definition tags_validator :: "string list \<Rightarrow> bool" where
  "tags_validator ts = (length ts \<le> 10)"

definition validate_title :: "string option \<Rightarrow> (string \<times> string) list" where
  "validate_title v =
     (case v of
        None \<Rightarrow> [(''title'', ''Task title is required'')]
      | Some t \<Rightarrow>
          if t = [] then [(''title'', ''Task title is required'')]
          else if length t > 200 then [(''title'', ''Title cannot exceed 200 characters'')]
          else [])"

definition validate_description :: "string option \<Rightarrow> (string \<times> string) list" where
  "validate_description v =
     (case v of
        None \<Rightarrow> []
      | Some t \<Rightarrow>
          if length t > 2000
          then [(''description'', ''Description cannot exceed 2000 characters'')]
          else [])"

definition validate_status :: "string \<Rightarrow> (string \<times> string) list" where
  "validate_status s =
     (if s \<in> set TaskStatus_values then []
      else [(''status'', ''Status must be todo, in-progress, or done'')])"

definition validate_priority :: "string \<Rightarrow> (string \<times> string) list" where
  "validate_priority p =
     (if p \<in> set TaskPriority_values then []
      else [(''priority'', ''Priority must be low, medium, high, or urgent'')])"

definition validate_dueDate :: "date \<Rightarrow> date option \<Rightarrow> (string \<times> string) list" where
  "validate_dueDate now v =
     (case v of
        None \<Rightarrow> []
      | Some d \<Rightarrow>
          if dueDate_validator now d then []
          else [(''dueDate'', ''Due date must be in the future'')])"

definition validate_tags :: "string list \<Rightarrow> (string \<times> string) list" where
  "validate_tags ts =
     (if tags_validator ts then [] else [(''tags'', ''Cannot have more than 10 tags'')])"

definition validate_assignee :: "object_id option \<Rightarrow> (string \<times> string) list" where
  "validate_assignee v =
     (case v of None \<Rightarrow> [(''assignee'', ''Assignee is required'')] | Some _ \<Rightarrow> [])"

definition validate_createdBy :: "object_id option \<Rightarrow> (string \<times> string) list" where
  "validate_createdBy v =
     (case v of None \<Rightarrow> [(''createdBy'', ''Created by is required'')] | Some _ \<Rightarrow> [])"

text \<open>The validators of one path, by the path's name.\<close>

definition path_errors :: "date \<Rightarrow> task_doc \<Rightarrow> string \<Rightarrow> (string \<times> string) list" where
  "path_errors now d p =
     (if p = ''title'' then validate_title (title d)
      else if p = ''description'' then validate_description (description d)
      else if p = ''status'' then validate_status (status d)
      else if p = ''priority'' then validate_priority (priority d)
      else if p = ''dueDate'' then validate_dueDate now (dueDate d)
      else if p = ''tags'' then validate_tags (tags d)
      else if p = ''assignee'' then validate_assignee (assignee d)
      else if p = ''createdBy'' then validate_createdBy (createdBy d)
      else [])"

text \<open>
  Validating a document: the validators of the paths that are in a state, in the schema's
  order. A path in no state is not visited.
\<close>

definition validate_instance :: "date \<Rightarrow> task_instance \<Rightarrow> (string \<times> string) list" where
  "validate_instance now inst =
     concat (map (\<lambda>p. if is_active (activePaths inst) p then path_errors now (doc inst) p
                       else [])
               schema_paths)"

text \<open>The \<open>pre("save")\<close> hook: lower-case and trim every tag, keep the non-empty first occurrences.\<close>

definition pre_save_tags :: "string list \<Rightarrow> string list" where
  "pre_save_tags ts =
     filter_indexed (\<lambda>tag index arr. tag \<noteq> [] \<and> indexOf arr tag = int index)
       (map (\<lambda>tag. trim (toLowerCase tag)) ts)"

definition pre_save :: "task_doc \<Rightarrow> task_doc" where
  "pre_save d = d\<lparr>tags := pre_save_tags (tags d)\<rparr>"

text \<open>
  After a successful save the states \<open>modify\<close> and \<open>default\<close> are cleared and the required
  paths are put in state \<open>require\<close>; a path in state \<open>init\<close> stays there.
\<close>

definition reset_paths :: "(string \<times> path_state) list \<Rightarrow> (string \<times> path_state) list" where
  "reset_paths sts =
     map (\<lambda>p. (p, Require)) required_paths @
     filter (\<lambda>(q, s). s = Init \<and> q \<notin> set required_paths) sts"

text \<open>
  \<open>save()\<close>: validation is the first save hook and visits the paths that are in a state;
  the schema's own hook runs after it; the result is the document as it is stored, with
  its path states reset.
\<close>

definition save :: "date \<Rightarrow> task_instance \<Rightarrow> error + task_instance" where
  "save now inst =
     (case validate_instance now inst of
        [] \<Rightarrow> Inr \<lparr> doc = pre_save (doc inst), activePaths = reset_paths (activePaths inst) \<rparr>
      | e # es \<Rightarrow> Inl (ValidationError (e # es)))"

text \<open>\<open>Task.create(fields)\<close> is \<open>new Task(fields).save()\<close>.\<close>

definition Task_create :: "date \<Rightarrow> object_id \<Rightarrow> task_input \<Rightarrow> error + task_instance" where
  "Task_create now oid inp = save now (new_Task oid inp)"

text \<open>The virtual \<open>isOverdue\<close> and the static \<open>findOverdue\<close>.\<close>

definition isOverdue :: "date \<Rightarrow> task_doc \<Rightarrow> js_result" where
  "isOverdue now t =
     (case dueDate t of
        None \<Rightarrow> JUndefined
      | Some d \<Rightarrow> if d < now then JBool (status t \<noteq> TaskStatus_DONE) else JBool False)"

text \<open>
  The query operators of \<open>findOverdue\<close>: \<open>$lt\<close> matches only a document that has the field,
  \<open>$ne\<close> matches every value but the given one.
\<close>

definition query_lt :: "date option \<Rightarrow> date \<Rightarrow> bool" where
  "query_lt field v = (case field of None \<Rightarrow> False | Some d \<Rightarrow> d < v)"

definition query_ne :: "string \<Rightarrow> string \<Rightarrow> bool" where
  "query_ne field v = (field \<noteq> v)"

definition findOverdue :: "date \<Rightarrow> task_doc list \<Rightarrow> task_doc list" where
  "findOverdue now collection =
     filter (\<lambda>t. query_lt (dueDate t) now \<and> query_ne (status t) TaskStatus_DONE) collection"

section \<open>The client (client/src/utils/index.ts, components/tasks/TaskModal.tsx)\<close>

text \<open>
  \<open>parseISO\<close> and \<open>isValid\<close> belong to the date library. A parsed date is a Date object,
  possibly the invalid one, whose time value is NaN; \<open>parseISO\<close> is an argument of the
  model and may throw (\<open>None\<close>). A comparison with NaN is false.
\<close>

datatype js_date = InvalidDate | ValidDate date

definition isValid :: "js_date \<Rightarrow> bool" where
  "isValid d = (case d of InvalidDate \<Rightarrow> False | ValidDate _ \<Rightarrow> True)"

definition date_less :: "js_date \<Rightarrow> date \<Rightarrow> bool" where
  "date_less d now = (case d of InvalidDate \<Rightarrow> False | ValidDate v \<Rightarrow> v < now)"

definition isOverdue_client :: "(string \<Rightarrow> js_date option) \<Rightarrow> date \<Rightarrow> string \<Rightarrow> bool" where
  "isOverdue_client parseISO now dueDate_str =
     (case parseISO dueDate_str of
        None \<Rightarrow> False
      | Some d \<Rightarrow> isValid d \<and> date_less d now)"

text \<open>
  The task form and \<open>handleSubmit\<close>. Identifiers are strings on the client, the empty string
  standing for none; the signed-in user may be absent (\<open>user?.role\<close>). The result is the form's
  errors or the data submitted, which goes to the create or to the update request according
  to the modal's mode.
\<close>

record client_user =
  c_id :: string
  c_role :: string

record TaskForm =
  f_title :: string
  f_description :: string
  f_status :: string
  f_priority :: string
  f_dueDate :: string
  f_tags :: "string list"
  f_assigneeId :: string

record submit_data =
  s_title :: string
  s_description :: string
  s_status :: string
  s_priority :: string
  s_dueDate :: "string option"
  s_tags :: "string list"
  s_assigneeId :: string

definition form_errors :: "TaskForm \<Rightarrow> (string \<times> string) list" where
  "form_errors formData =
     (let e1 = (if trim (f_title formData) = [] then [(''title'', ''Title is required'')] else []);
          e2 = (if length (f_title formData) > 200
                then [(''title'', ''Title must be less than 200 characters'')] else e1);
          e3 = (if f_description formData \<noteq> [] \<and> length (f_description formData) > 2000
                then [(''description'', ''Description must be less than 2000 characters'')]
                else [])
      in e2 @ e3)"

definition handleSubmit :: "client_user option \<Rightarrow> TaskForm \<Rightarrow> (string \<times> string) list + submit_data" where
  "handleSubmit user formData =
     (if form_errors formData \<noteq> [] then Inl (form_errors formData)
      else
        let submitData =
              \<lparr> s_title = f_title formData,
                s_description = f_description formData,
                s_status = f_status formData,
                s_priority = f_priority formData,
                s_dueDate = (if f_dueDate formData = [] then None else Some (f_dueDate formData)),
                s_tags = f_tags formData,
                s_assigneeId = f_assigneeId formData \<rparr>
        in Inr (case user of
                  None \<Rightarrow> submitData
                | Some u \<Rightarrow>
                    if c_role u = ''member'' then submitData\<lparr>s_assigneeId := c_id u\<rparr>
                    else submitData))"

section \<open>The activity log (server/src/models/ActivityLog.ts)\<close>

text \<open>
  Modelled from the spec: the enum \<open>ActivityAction\<close> of \<open>server/src/types\<close>, which is not among
  the sources; its values are the six actions of the data model (section 3).
\<close>

datatype ActivityAction = CREATED | UPDATED | DELETED | STATUS_CHANGED | ASSIGNED | UNASSIGNED

text \<open>
  The \<open>changes\<close> of an entry are a mixed value; here they map a field's name to its old and
  its new value, in the order the fields were recorded.
\<close>

datatype field_value =
  VNull | VString string | VDate date | VTags "string list" | VId object_id

type_synonym changes = "(string \<times> field_value \<times> field_value) list"

record activity_log =
  taskId :: object_id
  userId :: object_id
  action :: ActivityAction
  changes :: "changes option"
  timestamp :: date

text \<open>
  \<open>logActivity\<close> creates one entry. The argument \<open>changes\<close> is optional, and \<open>changes || null\<close>
  turns a missing one into \<open>null\<close>. The schema keeps the default \<open>minimize\<close> option, so an
  empty object is dropped when the entry is stored and the entry holds \<open>null\<close> as well.
\<close>

definition logActivity ::
  "activity_log list \<Rightarrow> object_id \<Rightarrow> object_id \<Rightarrow> ActivityAction \<Rightarrow> changes option \<Rightarrow> date
     \<Rightarrow> activity_log list" where
  "logActivity logs tid uid act chg now =
     logs @ [\<lparr> taskId = tid, userId = uid, action = act,
               changes = (case chg of None \<Rightarrow> None | Some c \<Rightarrow> if c = [] then None else Some c),
               timestamp = now \<rparr>]"

section \<open>The error handler (server/src/middleware/errorHandler.ts)\<close>

text \<open>
  The status code the handler answers with, for the two kinds of error the task and user
  operations raise: an \<open>AppError\<close> brings its own, a \<open>ValidationError\<close> is a 400.
\<close>

definition errorHandler_statusCode :: "error \<Rightarrow> nat" where
  "errorHandler_statusCode e =
     (case e of AppError statusCode message \<Rightarrow> statusCode | ValidationError errs \<Rightarrow> 400)"

section \<open>Permission policy and workflow\<close>

text \<open>
  Modelled from the spec: the enum \<open>UserRole\<close> of \<open>server/src/types\<close>, which is not among the
  sources: a role is admin or member.
\<close>

datatype UserRole = ADMIN | MEMBER

text \<open>
  Modelled from the spec: the User model, which is not among the sources, with the
  attributes of the data model (section 3).
\<close>

record user =
  user_id :: object_id
  email :: string
  passwordHash :: string
  firstName :: string
  lastName :: string
  role :: UserRole

text \<open>
  Modelled from the spec: the PermissionError of the error taxonomy (section 7), an
  \<open>AppError\<close> with status 403; the class \<open>AppError\<close> is declared in \<open>server/src/types\<close>, not
  among the sources.
\<close>

definition PermissionError :: "string \<Rightarrow> error" where
  "PermissionError msg = AppError 403 msg"

text \<open>
  Modelled from the spec: the NotFoundError of the error taxonomy (section 7), an
  \<open>AppError\<close> with status 404.
\<close>

definition NotFoundError :: "string \<Rightarrow> error" where
  "NotFoundError msg = AppError 404 msg"

text \<open>
  The database: the three collections, each in insertion order. Identifiers are unique
  within a collection.
\<close>

record db =
  users :: "user list"
  tasks :: "task_doc list"
  activityLogs :: "activity_log list"

text \<open>
  The database after a request: a request that fails leaves it as it was.
\<close>

definition state_after :: "db \<Rightarrow> error + db \<Rightarrow> db" where
  "state_after st r = (case r of Inl _ \<Rightarrow> st | Inr st' \<Rightarrow> st')"

text \<open>
  Modelled from the spec: the permission policy (section 4.1), whose code is in the task
  controller and the auth middleware, not among the sources. An admin may perform any
  action on any task; a member may read or update a task only as its assignee or its
  creator, may never delete, and may create a task only with themself as assignee.
\<close>

datatype task_action = Create | Read | Update | Delete

text \<open>
  Modelled from the spec: \<open>canPerform(actorRole, actorId, task, action)\<close> of section 4.1. For
  \<open>Create\<close> the task is the one about to be created.
\<close>

definition canPerform :: "UserRole \<Rightarrow> object_id \<Rightarrow> task_doc \<Rightarrow> task_action \<Rightarrow> bool" where
  "canPerform actorRole actorId task act =
     (case actorRole of
        ADMIN \<Rightarrow> True
      | MEMBER \<Rightarrow>
          (case act of
             Create \<Rightarrow> assignee task = Some actorId
           | Read \<Rightarrow> assignee task = Some actorId \<or> createdBy task = Some actorId
           | Update \<Rightarrow> assignee task = Some actorId \<or> createdBy task = Some actorId
           | Delete \<Rightarrow> False))"

text \<open>
  Modelled from the spec: \<open>createTask\<close> (section 4.2), whose controller is not among the
  sources. A member's missing assignee is set to the member; the policy rejects a member
  who names someone else; creation goes through \<open>Task.create\<close>, which validates the field
  constraints and applies the defaults; then one entry with action \<open>created\<close> is logged.
\<close>

definition createTask :: "user \<Rightarrow> task_input \<Rightarrow> object_id \<Rightarrow> date \<Rightarrow> db \<Rightarrow> error + db" where
  "createTask actor inp oid now st =
     (let requested =
            inp\<lparr> i_assignee :=
                      (if role actor = MEMBER \<and> i_assignee inp = None
                       then Some (user_id actor) else i_assignee inp),
                    i_createdBy := Some (user_id actor) \<rparr>
      in if \<not> canPerform (role actor) (user_id actor) (doc (new_Task oid requested)) Create
         then Inl (PermissionError ''Members can only assign tasks to themselves'')
         else
           (case Task_create now oid requested of
              Inl e \<Rightarrow> Inl e
            | Inr inst \<Rightarrow>
                Inr (st\<lparr> tasks := tasks st @ [doc inst],
                         activityLogs :=
                           logActivity (activityLogs st) oid (user_id actor) CREATED None now \<rparr>)))"

text \<open>
  Modelled from the spec: the patch of \<open>updateTask\<close> (section 4.2), which gives new values to
  some of the seven attributes a client may set.
\<close>

record task_patch =
  p_title :: "string option"
  p_description :: "string option"
  p_status :: "string option"
  p_priority :: "string option"
  p_dueDate :: "date option"
  p_tags :: "string list option"
  p_assignee :: "object_id option"

text \<open>Modelled from the spec: an attribute of the patch, if present, is assigned to the document.\<close>

definition assign_opt :: "('a \<Rightarrow> task_instance \<Rightarrow> task_instance) \<Rightarrow> 'a option \<Rightarrow> task_instance \<Rightarrow> task_instance" where
  "assign_opt setter v inst = (case v of None \<Rightarrow> inst | Some x \<Rightarrow> setter x inst)"

text \<open>
  Modelled from the spec: the loaded document with the patch applied, attribute by
  attribute, through the schema's setters.
\<close>

definition apply_patch :: "task_instance \<Rightarrow> task_patch \<Rightarrow> task_instance" where
  "apply_patch inst p =
     assign_opt set_assignee (p_assignee p)
       (assign_opt set_tags (p_tags p)
         (assign_opt set_dueDate (p_dueDate p)
           (assign_opt set_priority (p_priority p)
             (assign_opt set_status (p_status p)
               (assign_opt set_description (p_description p)
                 (assign_opt set_title (p_title p) inst))))))"








text \<open>
  Modelled from the spec: \<open>deleteTask\<close> (section 4.2), whose controller is not among the
  sources: gated to admins, it removes the task and logs one entry with action \<open>deleted\<close>
  that keeps the removed task's id.
\<close>

definition deleteTask :: "user \<Rightarrow> object_id \<Rightarrow> date \<Rightarrow> db \<Rightarrow> error + db" where
  "deleteTask actor tid now st =
     (if role actor \<noteq> ADMIN
      then Inl (PermissionError ''Only admins can delete tasks'')
      else
        (case find (\<lambda>t. task_id t = tid) (tasks st) of
           None \<Rightarrow> Inl (NotFoundError ''Task not found'')
         | Some t \<Rightarrow>
             Inr (st\<lparr> tasks := filter (\<lambda>x. task_id x \<noteq> tid) (tasks st),
                      activityLogs :=
                        logActivity (activityLogs st) tid (user_id actor) DELETED None now \<rparr>)))"

text \<open>
  Modelled from the spec: the role change behind \<open>PATCH /api/users/:id/role\<close>, whose
  controller is not among the sources. It is for admins only and refuses the actor's own
  account with a 400, as the user tests expect.
\<close>

definition updateUserRole :: "user \<Rightarrow> object_id \<Rightarrow> UserRole \<Rightarrow> db \<Rightarrow> error + db" where
  "updateUserRole actor target newRole st =
     (if role actor \<noteq> ADMIN then Inl (PermissionError ''Admin access required'')
      else if target = user_id actor then Inl (AppError 400 ''You cannot change your own role'')
      else
        (case find (\<lambda>u. user_id u = target) (users st) of
           None \<Rightarrow> Inl (NotFoundError ''User not found'')
         | Some u \<Rightarrow>
             Inr (st\<lparr> users :=
                        map (\<lambda>x. if user_id x = target then x\<lparr>role := newRole\<rparr> else x)
                          (users st) \<rparr>)))"

text \<open>Modelled from the spec: the tasks assigned to a user.\<close>

definition assignedTasks :: "object_id \<Rightarrow> db \<Rightarrow> task_doc list" where
  "assignedTasks uid st = filter (\<lambda>t. assignee t = Some uid) (tasks st)"

text \<open>
  Modelled from the spec: the account deletion behind \<open>DELETE /api/users/:id\<close>, whose
  controller is not among the sources. It is for admins only, refuses the actor's own
  account with a 400, as the user tests expect, and refuses a user who is the assignee of
  a task (section 3).
\<close>

definition deleteUser :: "user \<Rightarrow> object_id \<Rightarrow> db \<Rightarrow> error + db" where
  "deleteUser actor target st =
     (if role actor \<noteq> ADMIN then Inl (PermissionError ''Admin access required'')
      else if target = user_id actor
      then Inl (AppError 400 ''You cannot delete your own account'')
      else
        (case find (\<lambda>u. user_id u = target) (users st) of
           None \<Rightarrow> Inl (NotFoundError ''User not found'')
         | Some u \<Rightarrow>
             if length (assignedTasks target st) > 0
             then Inl (AppError 400 ''Cannot delete user with assigned tasks'')
             else Inr (st\<lparr> users := filter (\<lambda>x. user_id x \<noteq> target) (users st) \<rparr>)))"

section \<open>The tag rule in the specification's words\<close>

text \<open>
  The specification describes the stored tags as the input tags lower-cased and trimmed,
  without the empty ones, each kept at its first occurrence only. \<open>keep_first seen xs\<close>
  walks the list and drops what it has seen before.
\<close>

fun keep_first :: "'a list \<Rightarrow> 'a list \<Rightarrow> 'a list" where
  "keep_first seen [] = []"
| "keep_first seen (x # xs) =
     (if x \<in> set seen then keep_first seen xs else x # keep_first (x # seen) xs)"

definition normalised_tags_spec :: "string list \<Rightarrow> string list" where
  "normalised_tags_spec ts =
     keep_first [] (filter (\<lambda>t. t \<noteq> []) (map (\<lambda>t. trim (toLowerCase t)) ts))"

section \<open>Facts about the string and array helpers\<close>

lemma indexOf_notin: "x \<notin> set xs \<Longrightarrow> indexOf xs x = - 1"
  by (induction xs) (auto simp: Let_def)

lemma indexOf_in: "x \<in> set xs \<Longrightarrow> 0 \<le> indexOf xs x \<and> indexOf xs x < int (length xs)"
  by (induction xs) (auto simp: Let_def)

lemma indexOf_append:
  "indexOf (pre @ ys) x =
     (if x \<in> set pre then indexOf pre x
      else if x \<in> set ys then int (length pre) + indexOf ys x else - 1)"
proof (induction pre)
  case Nil
  show ?case by (simp add: indexOf_notin)
next
  case (Cons a pre)
  show ?case using Cons indexOf_in[of x pre] indexOf_in[of x ys]
    by (auto simp: Let_def indexOf_notin)
qed

lemma indexOf_here: "indexOf (pre @ x # xs) x = int (length pre) \<longleftrightarrow> x \<notin> set pre"
  using indexOf_in[of x pre] by (auto simp: indexOf_append)

lemma keep_first_cong:
  "(\<And>y. y \<in> set xs \<Longrightarrow> y \<in> set s1 \<longleftrightarrow> y \<in> set s2) \<Longrightarrow> keep_first s1 xs = keep_first s2 xs"
proof (induction xs arbitrary: s1 s2)
  case Nil
  show ?case by simp
next
  case (Cons x xs)
  have a: "x \<in> set s1 \<longleftrightarrow> x \<in> set s2" using Cons.prems by simp
  have b: "keep_first s1 xs = keep_first s2 xs" using Cons.prems by (intro Cons.IH) simp
  have c: "keep_first (x # s1) xs = keep_first (x # s2) xs" using Cons.prems by (intro Cons.IH) simp
  show ?case using a b c by simp
qed

lemma filter_from_first_occurrence:
  "filter_from (length pre) (\<lambda>x i arr. P x \<and> indexOf arr x = int i) (pre @ xs) xs
   = keep_first pre (filter P xs)"
proof (induction xs arbitrary: pre)
  case Nil
  then show ?case by simp
next
  case (Cons x xs)
  have step: "filter_from (length (pre @ [x])) (\<lambda>x i arr. P x \<and> indexOf arr x = int i)
       ((pre @ [x]) @ xs) xs = keep_first (pre @ [x]) (filter P xs)"
    by (rule Cons.IH)
  have seen: "keep_first (pre @ [x]) (filter P xs) = keep_first (x # pre) (filter P xs)"
    by (rule keep_first_cong) auto
  have skip: "x \<in> set pre \<or> \<not> P x \<Longrightarrow> keep_first (x # pre) (filter P xs) = keep_first pre (filter P xs)"
    by (rule keep_first_cong) auto
  show ?case using step seen skip by (auto simp: indexOf_here)
qed

lemma pre_save_tags_spec: "pre_save_tags ts = normalised_tags_spec ts"
  using filter_from_first_occurrence[of "[]" "\<lambda>t. t \<noteq> []" "map (\<lambda>t. trim (toLowerCase t)) ts"]
  by (simp add: pre_save_tags_def normalised_tags_spec_def filter_indexed_def)

lemma keep_first_set: "set (keep_first seen xs) = set xs - set seen"
  by (induction xs arbitrary: seen) auto

lemma keep_first_distinct: "distinct (keep_first seen xs)"
  by (induction xs arbitrary: seen) (auto simp: keep_first_set)

lemma toLowerCase_char_idem: "toLowerCase_char (toLowerCase_char c) = toLowerCase_char c"
  by (auto simp: toLowerCase_char_def Let_def)

lemma trim_subset: "c \<in> set (trim s) \<Longrightarrow> c \<in> set s"
  unfolding trim_def by (auto dest!: set_dropWhileD)

lemma dropWhile_fix: "xs = [] \<or> \<not> P (hd xs) \<Longrightarrow> dropWhile P xs = xs"
  by (cases xs) auto

lemma hd_dropWhile_or: "dropWhile P xs = [] \<or> \<not> P (hd (dropWhile P xs))"
  using hd_dropWhile by blast

lemma last_dropWhile: "dropWhile P xs \<noteq> [] \<Longrightarrow> last (dropWhile P xs) = last xs"
  by (induction xs) auto

lemma trim_idem: "trim (trim s) = trim s"
proof -
  define a where "a = dropWhile isWhiteSpace s"
  define b where "b = dropWhile isWhiteSpace (rev a)"
  have t: "trim s = rev b" by (simp add: trim_def a_def b_def)
  have ha: "a = [] \<or> \<not> isWhiteSpace (hd a)" unfolding a_def by (rule hd_dropWhile_or)
  have hb: "b = [] \<or> \<not> isWhiteSpace (hd b)" unfolding b_def by (rule hd_dropWhile_or)
  have lb: "b = [] \<or> \<not> isWhiteSpace (last b)"
  proof (cases "b = []")
    case True then show ?thesis by simp
  next
    case False
    then have "last b = last (rev a)" unfolding b_def by (rule last_dropWhile)
    moreover have "a \<noteq> []" using False by (auto simp: b_def)
    ultimately have "last b = hd a" by (simp add: last_rev)
    moreover have "\<not> isWhiteSpace (hd a)" using ha \<open>a \<noteq> []\<close> by simp
    ultimately show ?thesis by simp
  qed
  have 1: "dropWhile isWhiteSpace (rev b) = rev b"
    using lb by (intro dropWhile_fix) (auto simp: hd_rev)
  have 2: "dropWhile isWhiteSpace b = b"
    using hb by (intro dropWhile_fix) auto
  show ?thesis unfolding t by (simp add: trim_def 1 2)
qed

lemma toLowerCase_trim_lower: "toLowerCase (trim (toLowerCase s)) = trim (toLowerCase s)"
proof -
  have "\<forall>c \<in> set (trim (toLowerCase s)). toLowerCase_char c = c"
    by (auto dest!: trim_subset simp: toLowerCase_def toLowerCase_char_idem)
  then show ?thesis unfolding toLowerCase_def[of "trim _"] by (simp add: map_idI)
qed

lemma normalised_tags_spec_elem:
  "t \<in> set (normalised_tags_spec ts) \<Longrightarrow> t \<noteq> [] \<and> toLowerCase t = t \<and> trim t = t"
  by (auto simp: normalised_tags_spec_def keep_first_set toLowerCase_trim_lower trim_idem)


section \<open>Facts about documents and save\<close>

lemma path_states_names:
  "p \<in> fst ` set (concat (map (\<lambda>p. case f p of None \<Rightarrow> [] | Some s \<Rightarrow> [(p, s)]) ps))
     \<longleftrightarrow> p \<in> set ps \<and> f p \<noteq> None"
  by (induction ps) (auto split: option.splits)

lemma is_active_path_states:
  "is_active (path_states f) p \<longleftrightarrow> p \<in> set schema_paths \<and> f p \<noteq> None"
  using path_states_names[of p f schema_paths] by (simp add: is_active_def path_states_def)

lemma is_active_mark_modified:
  "is_active (mark_modified q sts) p \<longleftrightarrow> p = q \<or> is_active sts p"
  by (force simp: is_active_def mark_modified_def)

lemma validate_instance_mem:
  "x \<in> set (validate_instance now inst) \<longleftrightarrow>
     (\<exists>p \<in> set schema_paths. is_active (activePaths inst) p \<and> x \<in> set (path_errors now (doc inst) p))"
  by (auto simp: validate_instance_def split: if_splits)


lemma save_Inr_iff:
  "save now inst = Inr inst' \<longleftrightarrow>
     validate_instance now inst = [] \<and>
     inst' = \<lparr> doc = pre_save (doc inst), activePaths = reset_paths (activePaths inst) \<rparr>"
  by (auto simp: save_def split: list.splits)

lemma save_Inl_iff:
  "save now inst = Inl e \<longleftrightarrow>
     validate_instance now inst \<noteq> [] \<and> e = ValidationError (validate_instance now inst)"
  by (auto simp: save_def split: list.splits)

lemma save_fails:
  "p \<in> set schema_paths \<Longrightarrow> is_active (activePaths inst) p \<Longrightarrow>
   x \<in> set (path_errors now (doc inst) p) \<Longrightarrow>
   \<exists>errs. save now inst = Inl (ValidationError errs) \<and> x \<in> set errs"
proof -
  assume "p \<in> set schema_paths" "is_active (activePaths inst) p"
    "x \<in> set (path_errors now (doc inst) p)"
  then have "x \<in> set (validate_instance now inst)"
    unfolding validate_instance_mem by blast
  then show ?thesis by (auto simp: save_Inl_iff)
qed

lemma new_Task_active:
  "is_active (activePaths (new_Task oid inp)) p \<longleftrightarrow>
     p \<in> set schema_paths \<and>
     (supplied inp p \<or> p \<in> set default_paths \<or> p \<in> set required_paths)"
  by (simp add: new_Task_def is_active_path_states)

lemma hydrate_active:
  "is_active (activePaths (hydrate d)) p \<longleftrightarrow>
     p \<in> set schema_paths \<and> (has_value d p \<or> p \<in> set required_paths)"
  by (simp add: hydrate_def is_active_path_states)

section \<open>Tags on save\<close>

text \<open>
  C5: whenever a task is saved, the stored tags are the input tags lower-cased and trimmed,
  without the empty strings and with every duplicate after its first occurrence removed;
  the stored list has no duplicates, and each stored tag is non-empty, lower-case and
  trimmed. The input \<open>["Foo", "foo", " Bar "]\<close> is stored as \<open>["foo", "bar"]\<close>.
\<close>

theorem tags_normalised_on_save:
  assumes "save now inst = Inr inst'"
  shows "tags (doc inst') = normalised_tags_spec (tags (doc inst))
    \<and> distinct (tags (doc inst'))
    \<and> (\<forall>t \<in> set (tags (doc inst')). t \<noteq> [] \<and> toLowerCase t = t \<and> trim t = t)
    \<and> (tags (doc inst) = [''Foo'', ''foo'', '' Bar ''] \<longrightarrow> tags (doc inst') = [''foo'', ''bar''])"
proof -
  have eq: "tags (doc inst') = normalised_tags_spec (tags (doc inst))"
    using assms by (simp add: save_Inr_iff pre_save_def pre_save_tags_spec)
  have ex: "normalised_tags_spec [''Foo'', ''foo'', '' Bar ''] = [''foo'', ''bar'']"
    by code_simp
  have di: "distinct (normalised_tags_spec (tags (doc inst)))"
    by (simp add: normalised_tags_spec_def keep_first_distinct)
  show ?thesis using eq ex di normalised_tags_spec_elem[of _ "tags (doc inst)"] by auto
qed

theorem tags_normalised_on_save_witness:
  "save 0 (new_Task 1
      \<lparr> i_title = Some ''Write report'', i_description = None, i_status = None,
        i_priority = None, i_dueDate = Some 10,
        i_tags = Some [''Foo'', ''foo'', '' Bar ''], i_assignee = Some 2,
        i_createdBy = Some 2 \<rparr>)
   = Inr \<lparr> doc = \<lparr> task_id = 1, title = Some ''Write report'', description = None,
                   status = ''todo'', priority = ''medium'', dueDate = Some 10,
                   tags = [''foo'', ''bar''], assignee = Some 2, createdBy = Some 2 \<rparr>,
           activePaths = [(''title'', Require), (''assignee'', Require),
                          (''createdBy'', Require)] \<rparr>
   \<and> normalised_tags_spec [''Foo'', ''foo'', '' Bar ''] = [''foo'', ''bar'']
   \<and> save 0 (hydrate
      \<lparr> task_id = 1, title = Some ''Write report'', description = None,
        status = ''todo'', priority = ''medium'', dueDate = None,
        tags = [[CHR 0xC9], [CHR 0xE9], [CHR 0xA0, CHR ''X'', CHR 0xA0], [CHR 0xD7]],
        assignee = Some 2, createdBy = Some 2 \<rparr>)
   = Inr \<lparr> doc = \<lparr> task_id = 1, title = Some ''Write report'', description = None,
                   status = ''todo'', priority = ''medium'', dueDate = None,
                   tags = [[CHR 0xE9], ''x'', [CHR 0xD7]], assignee = Some 2,
                   createdBy = Some 2 \<rparr>,
           activePaths = [(''title'', Require), (''assignee'', Require),
                          (''createdBy'', Require), (''status'', Init),
                          (''priority'', Init), (''tags'', Init)] \<rparr>"
proof -
  let ?i = "new_Task 1
      \<lparr> i_title = Some ''Write report'', i_description = None, i_status = None,
        i_priority = None, i_dueDate = Some 10,
        i_tags = Some [''Foo'', ''foo'', '' Bar ''], i_assignee = Some 2,
        i_createdBy = Some 2 \<rparr>"
  let ?i' = "\<lparr> doc = \<lparr> task_id = 1, title = Some ''Write report'', description = None,
                   status = ''todo'', priority = ''medium'', dueDate = Some 10,
                   tags = [''foo'', ''bar''], assignee = Some 2, createdBy = Some 2 \<rparr>,
           activePaths = [(''title'', Require), (''assignee'', Require),
                          (''createdBy'', Require)] \<rparr>"
  have s: "save 0 ?i = Inr ?i'" by code_simp
  have t: "tags (doc ?i) = [''Foo'', ''foo'', '' Bar '']" by (simp add: new_Task_def)
  have "tags (doc ?i') = normalised_tags_spec (tags (doc ?i))"
    using tags_normalised_on_save[OF s] by (rule conjunct1)
  then have n: "normalised_tags_spec [''Foo'', ''foo'', '' Bar ''] = [''foo'', ''bar'']"
    unfolding t by simp
  have l: "save 0 (hydrate
      \<lparr> task_id = 1, title = Some ''Write report'', description = None,
        status = ''todo'', priority = ''medium'', dueDate = None,
        tags = [[CHR 0xC9], [CHR 0xE9], [CHR 0xA0, CHR ''X'', CHR 0xA0], [CHR 0xD7]],
        assignee = Some 2, createdBy = Some 2 \<rparr>)
   = Inr \<lparr> doc = \<lparr> task_id = 1, title = Some ''Write report'', description = None,
                   status = ''todo'', priority = ''medium'', dueDate = None,
                   tags = [[CHR 0xE9], ''x'', [CHR 0xD7]], assignee = Some 2,
                   createdBy = Some 2 \<rparr>,
           activePaths = [(''title'', Require), (''assignee'', Require),
                          (''createdBy'', Require), (''status'', Init),
                          (''priority'', Init), (''tags'', Init)] \<rparr>"
    by code_simp
  show ?thesis using s n l by simp
qed

section \<open>Validation at creation\<close>

lemma Task_create_fails:
  "p \<in> set schema_paths \<Longrightarrow>
   supplied inp p \<or> p \<in> set default_paths \<or> p \<in> set required_paths \<Longrightarrow>
   x \<in> set (path_errors now (doc (new_Task oid inp)) p) \<Longrightarrow>
   \<exists>errs. Task_create now oid inp = Inl (ValidationError errs) \<and> x \<in> set errs"
  unfolding Task_create_def by (rule save_fails) (simp_all add: new_Task_active)

lemma new_Task_doc:
  "doc (new_Task oid inp) =
     \<lparr> task_id = oid,
       title = map_option trim (i_title inp),
       description = map_option trim (i_description inp),
       status = (case i_status inp of None \<Rightarrow> TaskStatus_TODO | Some s \<Rightarrow> s),
       priority = (case i_priority inp of None \<Rightarrow> TaskPriority_MEDIUM | Some p \<Rightarrow> p),
       dueDate = i_dueDate inp,
       tags = (case i_tags inp of None \<Rightarrow> [] | Some ts \<Rightarrow> ts),
       assignee = i_assignee inp,
       createdBy = i_createdBy inp \<rparr>"
  by (simp add: new_Task_def)

text \<open>
  C6, as stated, fails: a title of 201 characters, 200 letters and a trailing space or
  no-break space, exceeds 200 characters and is accepted, because the \<open>trim\<close> setter runs
  before the length validator.
\<close>

theorem create_accepts_padded_title_counterexample:
  "length (replicate 200 CHR ''a'' @ '' '') = 201
   \<and> Task_create 0 1
       \<lparr> i_title = Some (replicate 200 CHR ''a'' @ '' ''), i_description = None,
         i_status = None, i_priority = None, i_dueDate = None, i_tags = None,
         i_assignee = Some 2, i_createdBy = Some 2 \<rparr>
     = Inr \<lparr> doc = \<lparr> task_id = 1, title = Some (replicate 200 CHR ''a''),
                     description = None, status = ''todo'', priority = ''medium'',
                     dueDate = None, tags = [], assignee = Some 2, createdBy = Some 2 \<rparr>,
             activePaths = [(''title'', Require), (''assignee'', Require),
                            (''createdBy'', Require)] \<rparr>
   \<and> Task_create 0 1
       \<lparr> i_title = Some (replicate 200 CHR ''a'' @ [CHR 0xA0]), i_description = None,
         i_status = None, i_priority = None, i_dueDate = None, i_tags = None,
         i_assignee = Some 2, i_createdBy = Some 2 \<rparr>
     = Inr \<lparr> doc = \<lparr> task_id = 1, title = Some (replicate 200 CHR ''a''),
                     description = None, status = ''todo'', priority = ''medium'',
                     dueDate = None, tags = [], assignee = Some 2, createdBy = Some 2 \<rparr>,
             activePaths = [(''title'', Require), (''assignee'', Require),
                            (''createdBy'', Require)] \<rparr>"
  by code_simp

text \<open>
  C6, amended: creating a task fails with a ValidationError that carries the path's message
  when the title is missing or empty once trimmed, when the trimmed title is longer than
  200 characters, when the trimmed description is longer than 2000 characters, when the
  tags as given are more than 10, or when the due date given is not strictly after the
  current time; a task created without a status has status \<open>todo\<close>, and one created
  without a priority has priority \<open>medium\<close>.
\<close>

theorem create_validation:
  "((case i_title inp of None \<Rightarrow> True | Some s \<Rightarrow> trim s = []) \<longrightarrow>
      (\<exists>errs. Task_create now oid inp = Inl (ValidationError errs)
         \<and> (''title'', ''Task title is required'') \<in> set errs))
   \<and> ((\<exists>s. i_title inp = Some s \<and> length (trim s) > 200) \<longrightarrow>
      (\<exists>errs. Task_create now oid inp = Inl (ValidationError errs)
         \<and> (''title'', ''Title cannot exceed 200 characters'') \<in> set errs))
   \<and> ((\<exists>s. i_description inp = Some s \<and> length (trim s) > 2000) \<longrightarrow>
      (\<exists>errs. Task_create now oid inp = Inl (ValidationError errs)
         \<and> (''description'', ''Description cannot exceed 2000 characters'') \<in> set errs))
   \<and> ((\<exists>ts. i_tags inp = Some ts \<and> length ts > 10) \<longrightarrow>
      (\<exists>errs. Task_create now oid inp = Inl (ValidationError errs)
         \<and> (''tags'', ''Cannot have more than 10 tags'') \<in> set errs))
   \<and> ((\<exists>d. i_dueDate inp = Some d \<and> d \<le> now) \<longrightarrow>
      (\<exists>errs. Task_create now oid inp = Inl (ValidationError errs)
         \<and> (''dueDate'', ''Due date must be in the future'') \<in> set errs))
   \<and> (\<forall>t. Task_create now oid inp = Inr t \<longrightarrow>
        (i_status inp = None \<longrightarrow> status (doc t) = TaskStatus_TODO) \<and>
        (i_priority inp = None \<longrightarrow> priority (doc t) = TaskPriority_MEDIUM))"
proof (intro conjI impI allI)
  assume "case i_title inp of None \<Rightarrow> True | Some s \<Rightarrow> trim s = []"
  then have "validate_title (map_option trim (i_title inp)) = [(''title'', ''Task title is required'')]"
    by (cases "i_title inp") (simp_all add: validate_title_def)
  then have "(''title'', ''Task title is required'')
      \<in> set (path_errors now (doc (new_Task oid inp)) ''title'')"
    by (simp add: path_errors_def new_Task_doc)
  then show "\<exists>errs. Task_create now oid inp = Inl (ValidationError errs)
         \<and> (''title'', ''Task title is required'') \<in> set errs"
    by (intro Task_create_fails[of "''title''"])
       (simp_all add: schema_paths_def required_paths_def)
next
  assume "\<exists>s. i_title inp = Some s \<and> length (trim s) > 200"
  then obtain s where s: "i_title inp = Some s" "length (trim s) > 200" by blast
  then have "trim s \<noteq> []" by auto
  then have "(''title'', ''Title cannot exceed 200 characters'')
      \<in> set (path_errors now (doc (new_Task oid inp)) ''title'')"
    using s by (simp add: path_errors_def new_Task_doc validate_title_def)
  then show "\<exists>errs. Task_create now oid inp = Inl (ValidationError errs)
         \<and> (''title'', ''Title cannot exceed 200 characters'') \<in> set errs"
    by (intro Task_create_fails[of "''title''"])
       (simp_all add: schema_paths_def required_paths_def)
next
  assume "\<exists>s. i_description inp = Some s \<and> length (trim s) > 2000"
  then obtain s where s: "i_description inp = Some s" "length (trim s) > 2000" by blast
  then have "(''description'', ''Description cannot exceed 2000 characters'')
      \<in> set (path_errors now (doc (new_Task oid inp)) ''description'')"
    by (simp add: path_errors_def new_Task_doc validate_description_def)
  then show "\<exists>errs. Task_create now oid inp = Inl (ValidationError errs)
         \<and> (''description'', ''Description cannot exceed 2000 characters'') \<in> set errs"
    using s by (intro Task_create_fails[of "''description''"])
       (simp_all add: schema_paths_def supplied_def)
next
  assume "\<exists>ts. i_tags inp = Some ts \<and> length ts > 10"
  then obtain ts where s: "i_tags inp = Some ts" "length ts > 10" by blast
  then have "(''tags'', ''Cannot have more than 10 tags'')
      \<in> set (path_errors now (doc (new_Task oid inp)) ''tags'')"
    by (simp add: path_errors_def new_Task_doc validate_tags_def tags_validator_def)
  then show "\<exists>errs. Task_create now oid inp = Inl (ValidationError errs)
         \<and> (''tags'', ''Cannot have more than 10 tags'') \<in> set errs"
    by (intro Task_create_fails[of "''tags''"])
       (simp_all add: schema_paths_def default_paths_def)
next
  assume "\<exists>d. i_dueDate inp = Some d \<and> d \<le> now"
  then obtain d where s: "i_dueDate inp = Some d" "d \<le> now" by blast
  then have "(''dueDate'', ''Due date must be in the future'')
      \<in> set (path_errors now (doc (new_Task oid inp)) ''dueDate'')"
    by (simp add: path_errors_def new_Task_doc validate_dueDate_def dueDate_validator_def)
  then show "\<exists>errs. Task_create now oid inp = Inl (ValidationError errs)
         \<and> (''dueDate'', ''Due date must be in the future'') \<in> set errs"
    using s by (intro Task_create_fails[of "''dueDate''"])
       (simp_all add: schema_paths_def supplied_def)
next
  fix t assume "Task_create now oid inp = Inr t" "i_status inp = None"
  then show "status (doc t) = TaskStatus_TODO"
    by (auto simp: Task_create_def save_Inr_iff pre_save_def new_Task_doc)
next
  fix t assume "Task_create now oid inp = Inr t" "i_priority inp = None"
  then show "priority (doc t) = TaskPriority_MEDIUM"
    by (auto simp: Task_create_def save_Inr_iff pre_save_def new_Task_doc)
qed

theorem create_validation_witness:
  "Task_create 5 1
       \<lparr> i_title = Some [CHR 0xA0], i_description = None,
         i_status = None, i_priority = None, i_dueDate = Some 5,
         i_tags = Some (replicate 11 ''x''), i_assignee = Some 2, i_createdBy = Some 2 \<rparr>
     = Inl (ValidationError
         [(''title'', ''Task title is required''),
          (''dueDate'', ''Due date must be in the future''),
          (''tags'', ''Cannot have more than 10 tags'')])
   \<and> Task_create 5 1
       \<lparr> i_title = Some '' Ship it '', i_description = None,
         i_status = None, i_priority = None, i_dueDate = Some 6,
         i_tags = None, i_assignee = Some 2, i_createdBy = Some 2 \<rparr>
     = Inr \<lparr> doc = \<lparr> task_id = 1, title = Some ''Ship it'', description = None,
                     status = ''todo'', priority = ''medium'', dueDate = Some 6, tags = [],
                     assignee = Some 2, createdBy = Some 2 \<rparr>,
             activePaths = [(''title'', Require), (''assignee'', Require),
                            (''createdBy'', Require)] \<rparr>
   \<and> status \<lparr> task_id = 1, title = Some ''Ship it'', description = None,
             status = ''todo'', priority = ''medium'', dueDate = Some 6, tags = [],
             assignee = Some 2, createdBy = Some 2 \<rparr> = TaskStatus_TODO
   \<and> priority \<lparr> task_id = 1, title = Some ''Ship it'', description = None,
             status = ''todo'', priority = ''medium'', dueDate = Some 6, tags = [],
             assignee = Some 2, createdBy = Some 2 \<rparr> = TaskPriority_MEDIUM"
proof -
  let ?bad = "\<lparr> i_title = Some [CHR 0xA0], i_description = None,
         i_status = None, i_priority = None, i_dueDate = Some (5::int),
         i_tags = Some (replicate 11 ''x''), i_assignee = Some (2::nat), i_createdBy = Some (2::nat) \<rparr>"
  let ?good = "\<lparr> i_title = Some '' Ship it '', i_description = None,
         i_status = None, i_priority = None, i_dueDate = Some (6::int),
         i_tags = None, i_assignee = Some (2::nat), i_createdBy = Some (2::nat) \<rparr>"
  let ?t = "\<lparr> task_id = 1, title = Some ''Ship it'', description = None,
             status = ''todo'', priority = ''medium'', dueDate = Some 6, tags = [],
             assignee = Some 2, createdBy = Some 2 \<rparr>"
  let ?i = "\<lparr> doc = ?t, activePaths = [(''title'', Require), (''assignee'', Require),
                            (''createdBy'', Require)] \<rparr>"
  have bad: "Task_create 5 1 ?bad = Inl (ValidationError
         [(''title'', ''Task title is required''),
          (''dueDate'', ''Due date must be in the future''),
          (''tags'', ''Cannot have more than 10 tags'')])"
    by code_simp
  have good: "Task_create 5 1 ?good = Inr ?i" by code_simp
  have "status (doc ?i) = TaskStatus_TODO \<and> priority (doc ?i) = TaskPriority_MEDIUM"
    using create_validation[of ?good 5 1] good by simp
  then show ?thesis using bad good by simp
qed

section \<open>Overdue tasks\<close>

text \<open>
  C2: the virtual \<open>isOverdue\<close> is true exactly when the task has a due date, the due date is
  strictly before the current time and the status is not done; \<open>findOverdue\<close> returns
  exactly the tasks of the collection for which it is true, in the collection's order.
\<close>

theorem isOverdue_iff_past_due_and_not_done:
  "(isOverdue now t = JBool True \<longleftrightarrow>
      (\<exists>d. dueDate t = Some d \<and> d < now \<and> status t \<noteq> TaskStatus_DONE))
   \<and> findOverdue now ts = filter (\<lambda>t. isOverdue now t = JBool True) ts"
proof -
  have a: "\<And>t. (isOverdue now t = JBool True) =
      (query_lt (dueDate t) now \<and> query_ne (status t) TaskStatus_DONE)"
    by (auto simp: isOverdue_def query_lt_def query_ne_def split: option.splits)
  have b: "\<And>t. query_lt (dueDate t) now = (\<exists>d. dueDate t = Some d \<and> d < now)"
    by (auto simp: query_lt_def split: option.splits)
  show ?thesis unfolding findOverdue_def a by (auto simp: b query_ne_def)
qed

theorem isOverdue_iff_past_due_and_not_done_witness:
  "isOverdue 100 \<lparr> task_id = 1, title = Some ''a'', description = None, status = ''todo'',
       priority = ''medium'', dueDate = Some 50, tags = [], assignee = Some 7,
       createdBy = Some 7 \<rparr> = JBool True
   \<and> findOverdue 100
       [\<lparr> task_id = 1, title = Some ''a'', description = None, status = ''todo'',
          priority = ''medium'', dueDate = Some 50, tags = [], assignee = Some 7,
          createdBy = Some 7 \<rparr>,
        \<lparr> task_id = 2, title = Some ''b'', description = None, status = ''done'',
          priority = ''medium'', dueDate = Some 50, tags = [], assignee = Some 7,
          createdBy = Some 7 \<rparr>,
        \<lparr> task_id = 3, title = Some ''c'', description = None, status = ''todo'',
          priority = ''medium'', dueDate = None, tags = [], assignee = Some 7,
          createdBy = Some 7 \<rparr>,
        \<lparr> task_id = 4, title = Some ''d'', description = None, status = ''todo'',
          priority = ''medium'', dueDate = Some 100, tags = [], assignee = Some 7,
          createdBy = Some 7 \<rparr>]
     = [\<lparr> task_id = 1, title = Some ''a'', description = None, status = ''todo'',
          priority = ''medium'', dueDate = Some 50, tags = [], assignee = Some 7,
          createdBy = Some 7 \<rparr>]"
  using isOverdue_iff_past_due_and_not_done
    [of 100 "\<lparr> task_id = 1, title = Some ''a'', description = None, status = ''todo'',
       priority = ''medium'', dueDate = Some 50, tags = [], assignee = Some 7,
       createdBy = Some 7 \<rparr>"
      "[\<lparr> task_id = 1, title = Some ''a'', description = None, status = ''todo'',
          priority = ''medium'', dueDate = Some 50, tags = [], assignee = Some 7,
          createdBy = Some 7 \<rparr>,
        \<lparr> task_id = 2, title = Some ''b'', description = None, status = ''done'',
          priority = ''medium'', dueDate = Some 50, tags = [], assignee = Some 7,
          createdBy = Some 7 \<rparr>,
        \<lparr> task_id = 3, title = Some ''c'', description = None, status = ''todo'',
          priority = ''medium'', dueDate = None, tags = [], assignee = Some 7,
          createdBy = Some 7 \<rparr>,
        \<lparr> task_id = 4, title = Some ''d'', description = None, status = ''todo'',
          priority = ''medium'', dueDate = Some 100, tags = [], assignee = Some 7,
          createdBy = Some 7 \<rparr>]"]
  by (simp add: isOverdue_def TaskStatus_DONE_def)

section \<open>Facts about assignment\<close>

lemma doc_assign: "doc (assign p upd inst) = upd (doc inst)"
  by (simp add: assign_def)

lemma active_assign:
  "is_active (activePaths inst) q \<Longrightarrow> is_active (activePaths (assign p upd inst)) q"
  by (simp add: assign_def is_active_mark_modified)

lemma active_assign_opt:
  "(\<And>x i. is_active (activePaths i) q \<Longrightarrow> is_active (activePaths (setter x i)) q) \<Longrightarrow>
   is_active (activePaths inst) q \<Longrightarrow> is_active (activePaths (assign_opt setter v inst)) q"
  by (cases v) (simp_all add: assign_opt_def)

lemmas setter_defs =
  set_title_def set_description_def set_status_def set_priority_def set_dueDate_def
  set_tags_def set_assignee_def

lemma active_apply_patch:
  "is_active (activePaths inst) q \<Longrightarrow> is_active (activePaths (apply_patch inst p)) q"
  unfolding apply_patch_def
  by (intro active_assign_opt) (simp_all add: setter_defs active_assign)

lemma doc_assign_opt:
  "doc (assign_opt (\<lambda>x. assign p (upd x)) v inst) =
     (case v of None \<Rightarrow> doc inst | Some x \<Rightarrow> upd x (doc inst))"
  by (cases v) (simp_all add: assign_opt_def doc_assign)

text \<open>The data of a patched document.\<close>

lemma doc_apply_patch:
  "doc (apply_patch inst p) =
     (doc inst)
       \<lparr> title := (case p_title p of None \<Rightarrow> title (doc inst) | Some v \<Rightarrow> Some (trim v)),
         description :=
           (case p_description p of None \<Rightarrow> description (doc inst) | Some v \<Rightarrow> Some (trim v)),
         status := (case p_status p of None \<Rightarrow> status (doc inst) | Some v \<Rightarrow> v),
         priority := (case p_priority p of None \<Rightarrow> priority (doc inst) | Some v \<Rightarrow> v),
         dueDate := (case p_dueDate p of None \<Rightarrow> dueDate (doc inst) | Some v \<Rightarrow> Some v),
         tags := (case p_tags p of None \<Rightarrow> tags (doc inst) | Some v \<Rightarrow> v),
         assignee := (case p_assignee p of None \<Rightarrow> assignee (doc inst) | Some v \<Rightarrow> Some v) \<rparr>"
  unfolding apply_patch_def setter_defs doc_assign_opt
  by (simp split: option.splits)

lemma dueDate_apply_patch:
  "p_dueDate p = None \<Longrightarrow> dueDate (doc (apply_patch inst p)) = dueDate (doc inst)"
  by (simp add: doc_apply_patch)

section \<open>Validation at a later save\<close>

text \<open>
  C10, as stated, fails: a task is created and saved with a due date in the future; later,
  when the due date is past, the status of the same document is set to done and the
  document is saved again. The due date is then in no path state, its validator is not
  run, and the save succeeds.
\<close>

theorem resave_skips_past_due_date_counterexample:
  "Task_create 0 1
       \<lparr> i_title = Some ''Pay rent'', i_description = None, i_status = None,
         i_priority = None, i_dueDate = Some 10, i_tags = None, i_assignee = Some 2,
         i_createdBy = Some 2 \<rparr>
     = Inr \<lparr> doc = \<lparr> task_id = 1, title = Some ''Pay rent'', description = None,
                     status = ''todo'', priority = ''medium'', dueDate = Some 10,
                     tags = [], assignee = Some 2, createdBy = Some 2 \<rparr>,
             activePaths = [(''title'', Require), (''assignee'', Require),
                            (''createdBy'', Require)] \<rparr>
   \<and> (10::int) < 20
   \<and> save 20
       (set_status TaskStatus_DONE
          \<lparr> doc = \<lparr> task_id = 1, title = Some ''Pay rent'', description = None,
                    status = ''todo'', priority = ''medium'', dueDate = Some 10,
                    tags = [], assignee = Some 2, createdBy = Some 2 \<rparr>,
            activePaths = [(''title'', Require), (''assignee'', Require),
                           (''createdBy'', Require)] \<rparr>)
     = Inr \<lparr> doc = \<lparr> task_id = 1, title = Some ''Pay rent'', description = None,
                     status = ''done'', priority = ''medium'', dueDate = Some 10,
                     tags = [], assignee = Some 2, createdBy = Some 2 \<rparr>,
             activePaths = [(''title'', Require), (''assignee'', Require),
                            (''createdBy'', Require)] \<rparr>"
  by code_simp

text \<open>
  C10, amended: the due-date validator runs at every save that visits the path
  \<open>dueDate\<close>, not only at creation. A save fails with a ValidationError carrying "Due date
  must be in the future" whenever the due date is past and its path is in a state, and
  that is so for every task loaded from the database: any save of it fails while its
  stored due date is past, also after a patch that leaves the due date alone, such as
  setting the status to done.
\<close>

theorem past_due_date_blocks_save_of_loaded_task:
  assumes "dueDate t = Some d" and "d < now"
  shows "(\<exists>errs. save now (hydrate t) = Inl (ValidationError errs)
            \<and> (''dueDate'', ''Due date must be in the future'') \<in> set errs)
     \<and> (\<forall>p. p_dueDate p = None \<longrightarrow>
          (\<exists>errs. save now (apply_patch (hydrate t) p) = Inl (ValidationError errs)
            \<and> (''dueDate'', ''Due date must be in the future'') \<in> set errs))
     \<and> (\<exists>errs. save now (set_status TaskStatus_DONE (hydrate t)) = Inl (ValidationError errs)
            \<and> (''dueDate'', ''Due date must be in the future'') \<in> set errs)
     \<and> (\<forall>inst. is_active (activePaths inst) ''dueDate'' \<and> dueDate (doc inst) = Some d \<longrightarrow>
          (\<exists>errs. save now inst = Inl (ValidationError errs)
            \<and> (''dueDate'', ''Due date must be in the future'') \<in> set errs))"
proof -
  have gen: "\<exists>errs. save now inst = Inl (ValidationError errs)
            \<and> (''dueDate'', ''Due date must be in the future'') \<in> set errs"
    if "is_active (activePaths inst) ''dueDate''" "dueDate (doc inst) = Some d" for inst
  proof (rule save_fails[of "''dueDate''"])
    show "''dueDate'' \<in> set schema_paths" by (simp add: schema_paths_def)
    show "is_active (activePaths inst) ''dueDate''" by (rule that(1))
    show "(''dueDate'', ''Due date must be in the future'')
        \<in> set (path_errors now (doc inst) ''dueDate'')"
      using that(2) assms(2)
      by (simp add: path_errors_def validate_dueDate_def dueDate_validator_def)
  qed
  have h: "is_active (activePaths (hydrate t)) ''dueDate''"
    using assms(1) by (simp add: hydrate_active schema_paths_def has_value_def)
  have hd: "dueDate (doc (hydrate t)) = Some d"
    using assms(1) by (simp add: hydrate_def)
  have 1: "\<exists>errs. save now (hydrate t) = Inl (ValidationError errs)
            \<and> (''dueDate'', ''Due date must be in the future'') \<in> set errs"
    using h hd by (rule gen)
  have 2: "\<exists>errs. save now (apply_patch (hydrate t) p) = Inl (ValidationError errs)
            \<and> (''dueDate'', ''Due date must be in the future'') \<in> set errs"
    if "p_dueDate p = None" for p
    using active_apply_patch[OF h, of p] dueDate_apply_patch[OF that, of "hydrate t"] hd
    by (intro gen) simp_all
  have 3: "\<exists>errs. save now (set_status TaskStatus_DONE (hydrate t)) = Inl (ValidationError errs)
            \<and> (''dueDate'', ''Due date must be in the future'') \<in> set errs"
    using h hd by (intro gen) (simp_all add: set_status_def active_assign doc_assign)
  show ?thesis using 1 2 3 gen by blast
qed

theorem past_due_date_blocks_save_of_loaded_task_witness:
  "save 20
     (set_status TaskStatus_DONE
        (hydrate \<lparr> task_id = 1, title = Some ''Pay rent'', description = None,
                   status = ''todo'', priority = ''medium'', dueDate = Some 10,
                   tags = [], assignee = Some 2, createdBy = Some 2 \<rparr>))
   = Inl (ValidationError [(''dueDate'', ''Due date must be in the future'')])
   \<and> save 20
     (apply_patch
        (hydrate \<lparr> task_id = 1, title = Some ''Pay rent'', description = None,
                   status = ''todo'', priority = ''medium'', dueDate = Some 10,
                   tags = [], assignee = Some 2, createdBy = Some 2 \<rparr>)
        \<lparr> p_title = None, p_description = None, p_status = Some ''done'',
          p_priority = None, p_dueDate = None, p_tags = None, p_assignee = None \<rparr>)
   = Inl (ValidationError [(''dueDate'', ''Due date must be in the future'')])"
proof -
  let ?t = "\<lparr> task_id = 1, title = Some ''Pay rent'', description = None,
             status = ''todo'', priority = ''medium'', dueDate = Some (10::int), tags = [],
             assignee = Some (2::nat), createdBy = Some (2::nat) \<rparr>"
  let ?p = "\<lparr> p_title = None, p_description = None, p_status = Some ''done'',
          p_priority = None, p_dueDate = None, p_tags = None, p_assignee = None \<rparr>"
  have d: "dueDate ?t = Some 10" by simp
  have l: "(10::int) < 20" by simp
  have "\<exists>errs. save 20 (set_status TaskStatus_DONE (hydrate ?t)) = Inl (ValidationError errs)
            \<and> (''dueDate'', ''Due date must be in the future'') \<in> set errs"
    using past_due_date_blocks_save_of_loaded_task[OF d l] by blast
  moreover have a: "save 20 (set_status TaskStatus_DONE (hydrate ?t))
      = Inl (ValidationError [(''dueDate'', ''Due date must be in the future'')])"
    by code_simp
  moreover have b: "save 20 (apply_patch (hydrate ?t) ?p)
      = Inl (ValidationError [(''dueDate'', ''Due date must be in the future'')])"
    by code_simp
  ultimately show ?thesis by simp
qed

section \<open>The client's overdue test\<close>

text \<open>
  C9: the client's \<open>isOverdue\<close> is true exactly when its argument parses to a valid date
  strictly before the current time; an argument that does not parse, or whose parsing
  throws, gives false; the status of the task plays no part, so for a done task with a
  past due date the client says overdue where the server's virtual says false.
\<close>

theorem client_isOverdue_ignores_status:
  "(isOverdue_client parseISO now s \<longleftrightarrow> (\<exists>d. parseISO s = Some (ValidDate d) \<and> d < now))
   \<and> (parseISO s = None \<or> parseISO s = Some InvalidDate \<longrightarrow> \<not> isOverdue_client parseISO now s)
   \<and> (parseISO s = Some (ValidDate d) \<and> d < now \<and> dueDate t = Some d
        \<and> status t = TaskStatus_DONE \<longrightarrow>
      isOverdue_client parseISO now s \<and> isOverdue now t = JBool False)"
  by (auto simp: isOverdue_client_def isValid_def date_less_def isOverdue_def
           split: option.splits js_date.splits)

theorem client_isOverdue_ignores_status_witness:
  "isOverdue_client (\<lambda>s. if s = ''2020-01-01T00:00:00.000Z'' then Some (ValidDate 1577836800000)
                           else Some InvalidDate)
       1600000000000 ''2020-01-01T00:00:00.000Z''
   \<and> isOverdue 1600000000000
       \<lparr> task_id = 1, title = Some ''Pay rent'', description = None,
         status = ''done'', priority = ''medium'', dueDate = Some 1577836800000, tags = [],
         assignee = Some 2, createdBy = Some 2 \<rparr> = JBool False
   \<and> \<not> isOverdue_client (\<lambda>s. if s = ''2020-01-01T00:00:00.000Z'' then Some (ValidDate 1577836800000)
                           else Some InvalidDate)
       1600000000000 ''tomorrow''"
  using client_isOverdue_ignores_status
    [of "\<lambda>s. if s = ''2020-01-01T00:00:00.000Z'' then Some (ValidDate 1577836800000)
                           else Some InvalidDate"
        1600000000000 "''2020-01-01T00:00:00.000Z''" 1577836800000
        "\<lparr> task_id = 1, title = Some ''Pay rent'', description = None,
         status = ''done'', priority = ''medium'', dueDate = Some 1577836800000, tags = [],
         assignee = Some 2, createdBy = Some 2 \<rparr>"]
    client_isOverdue_ignores_status
    [of "\<lambda>s. if s = ''2020-01-01T00:00:00.000Z'' then Some (ValidDate 1577836800000)
                           else Some InvalidDate"
        1600000000000 "''tomorrow''"]
  by (simp add: TaskStatus_DONE_def)

section \<open>Facts about the workflow\<close>

lemma createTask_Inr_iff:
  "createTask actor inp oid now st = Inr st' \<longleftrightarrow>
     (role actor = MEMBER \<longrightarrow> i_assignee inp = None \<or> i_assignee inp = Some (user_id actor)) \<and>
     (\<exists>inst. Task_create now oid
            (inp\<lparr> i_assignee :=
                     (if role actor = MEMBER \<and> i_assignee inp = None
                      then Some (user_id actor) else i_assignee inp),
                   i_createdBy := Some (user_id actor) \<rparr>) = Inr inst
          \<and> st' = st\<lparr> tasks := tasks st @ [doc inst],
                       activityLogs :=
                         logActivity (activityLogs st) oid (user_id actor) CREATED None now \<rparr>)"
  by (cases "role actor")
     (auto simp: createTask_def canPerform_def new_Task_doc Let_def split: sum.splits)

lemma Task_create_Inr_fields:
  "Task_create now oid inp = Inr inst \<Longrightarrow>
     task_id (doc inst) = oid \<and> assignee (doc inst) = i_assignee inp"
  by (auto simp: Task_create_def save_Inr_iff pre_save_def new_Task_doc)








lemma find_Some_if_member: "\<exists>x \<in> set xs. P x \<Longrightarrow> \<exists>y. find P xs = Some y"
  by (induction xs) auto





text \<open>
  \<open>createTask\<close> hands on the ValidationError of \<open>Task.create\<close> whenever the policy lets the
  request through.
\<close>

lemma createTask_validation_error:
  assumes "role actor = ADMIN \<or> i_assignee inp = None \<or> i_assignee inp = Some (user_id actor)"
    and "Task_create now oid
            (inp\<lparr> i_assignee :=
                     (if role actor = MEMBER \<and> i_assignee inp = None
                      then Some (user_id actor) else i_assignee inp),
                   i_createdBy := Some (user_id actor) \<rparr>) = Inl e"
  shows "createTask actor inp oid now st = Inl e"
  using assms by (cases "role actor") (auto simp: createTask_def canPerform_def new_Task_doc)

section \<open>Audit trail\<close>



section \<open>Assignee of a member's task\<close>

lemma handleSubmit_member:
  "c_role u = ''member'' \<Longrightarrow>
   handleSubmit (Some u) formData =
     (if form_errors formData \<noteq> [] then Inl (form_errors formData)
      else Inr \<lparr> s_title = f_title formData,
                 s_description = f_description formData,
                 s_status = f_status formData,
                 s_priority = f_priority formData,
                 s_dueDate = (if f_dueDate formData = [] then None else Some (f_dueDate formData)),
                 s_tags = f_tags formData,
                 s_assigneeId = c_id u \<rparr>)"
  by (simp add: handleSubmit_def Let_def)

text \<open>
  C3: every task a member creates has the member as its assignee. On the client, the form
  of a member that passes the form's checks is submitted with the member's own id as
  assignee, whatever assignee the form holds. On the server, a member's request without
  an assignee, or naming the member, creates the task with the member as assignee
  whenever the schema accepts it; a member's request naming someone else fails with a
  PermissionError, a 403, and creates nothing.
\<close>

theorem member_task_assigned_to_self:
  assumes "role actor = MEMBER"
  shows "(\<forall>st'. createTask actor inp oid now st = Inr st' \<longrightarrow>
            (\<exists>t. tasks st' = tasks st @ [t] \<and> task_id t = oid
               \<and> assignee t = Some (user_id actor)))
     \<and> (\<forall>inst. (i_assignee inp = None \<or> i_assignee inp = Some (user_id actor))
            \<and> Task_create now oid
                 (inp\<lparr> i_assignee := Some (user_id actor),
                        i_createdBy := Some (user_id actor) \<rparr>) = Inr inst \<longrightarrow>
          assignee (doc inst) = Some (user_id actor)
          \<and> createTask actor inp oid now st
            = Inr (st\<lparr> tasks := tasks st @ [doc inst],
                       activityLogs := activityLogs st @
                         [\<lparr> taskId = oid, userId = user_id actor, action = CREATED,
                            changes = None, timestamp = now \<rparr>] \<rparr>))
     \<and> (\<forall>a. i_assignee inp = Some a \<and> a \<noteq> user_id actor \<longrightarrow>
          createTask actor inp oid now st
            = Inl (PermissionError ''Members can only assign tasks to themselves'')
          \<and> errorHandler_statusCode
               (PermissionError ''Members can only assign tasks to themselves'') = 403
          \<and> state_after st (createTask actor inp oid now st) = st)
     \<and> (\<forall>u formData. c_role u = ''member'' \<longrightarrow>
          handleSubmit (Some u) formData =
            (if form_errors formData \<noteq> [] then Inl (form_errors formData)
             else Inr \<lparr> s_title = f_title formData,
                        s_description = f_description formData,
                        s_status = f_status formData,
                        s_priority = f_priority formData,
                        s_dueDate =
                          (if f_dueDate formData = [] then None else Some (f_dueDate formData)),
                        s_tags = f_tags formData,
                        s_assigneeId = c_id u \<rparr>))"
proof -
  have 1: "\<exists>t. tasks st' = tasks st @ [t] \<and> task_id t = oid
               \<and> assignee t = Some (user_id actor)"
    if c: "createTask actor inp oid now st = Inr st'" for st'
  proof -
    obtain inst where t: "Task_create now oid
            (inp\<lparr> i_assignee :=
                     (if role actor = MEMBER \<and> i_assignee inp = None
                      then Some (user_id actor) else i_assignee inp),
                   i_createdBy := Some (user_id actor) \<rparr>) = Inr inst"
      and st': "tasks st' = tasks st @ [doc inst]"
      using c unfolding createTask_Inr_iff by auto
    have "i_assignee inp = None \<or> i_assignee inp = Some (user_id actor)"
      using c assms unfolding createTask_Inr_iff by blast
    then have "task_id (doc inst) = oid \<and> assignee (doc inst) = Some (user_id actor)"
      using Task_create_Inr_fields[OF t] assms by auto
    then show ?thesis using st' by blast
  qed
  have 2: "assignee (doc inst) = Some (user_id actor)
          \<and> createTask actor inp oid now st
            = Inr (st\<lparr> tasks := tasks st @ [doc inst],
                       activityLogs := activityLogs st @
                         [\<lparr> taskId = oid, userId = user_id actor, action = CREATED,
                            changes = None, timestamp = now \<rparr>] \<rparr>)"
    if a: "(i_assignee inp = None \<or> i_assignee inp = Some (user_id actor))
            \<and> Task_create now oid
                 (inp\<lparr> i_assignee := Some (user_id actor),
                        i_createdBy := Some (user_id actor) \<rparr>) = Inr inst" for inst
  proof -
    have r: "inp\<lparr> i_assignee :=
                     (if role actor = MEMBER \<and> i_assignee inp = None
                      then Some (user_id actor) else i_assignee inp),
                   i_createdBy := Some (user_id actor) \<rparr>
        = inp\<lparr> i_assignee := Some (user_id actor), i_createdBy := Some (user_id actor) \<rparr>"
      using a assms by auto
    have "assignee (doc inst) = Some (user_id actor)"
      using a Task_create_Inr_fields[of now oid _ inst] by auto
    moreover have "createTask actor inp oid now st
            = Inr (st\<lparr> tasks := tasks st @ [doc inst],
                       activityLogs :=
                         logActivity (activityLogs st) oid (user_id actor) CREATED None now \<rparr>)"
      unfolding createTask_Inr_iff r using a assms by auto
    ultimately show ?thesis by (simp add: logActivity_def)
  qed
  have 3: "createTask actor inp oid now st
            = Inl (PermissionError ''Members can only assign tasks to themselves'')
          \<and> errorHandler_statusCode
               (PermissionError ''Members can only assign tasks to themselves'') = 403
          \<and> state_after st (createTask actor inp oid now st) = st"
    if "i_assignee inp = Some a \<and> a \<noteq> user_id actor" for a
    using that assms
    by (simp add: createTask_def canPerform_def new_Task_doc PermissionError_def
          errorHandler_statusCode_def state_after_def)
  show ?thesis using 1 2 3 handleSubmit_member by blast
qed

theorem member_task_assigned_to_self_witness:
  "handleSubmit
     (Some \<lparr> c_id = ''m2'', c_role = ''member'' \<rparr>)
     \<lparr> f_title = ''Pay rent'', f_description = '''', f_status = ''todo'',
       f_priority = ''medium'', f_dueDate = '''', f_tags = [], f_assigneeId = ''a9'' \<rparr>
   = Inr \<lparr> s_title = ''Pay rent'', s_description = '''', s_status = ''todo'',
           s_priority = ''medium'', s_dueDate = None, s_tags = [], s_assigneeId = ''m2'' \<rparr>
   \<and> createTask
     \<lparr> user_id = 2, email = ''mia@example.org'', passwordHash = ''h'', firstName = ''Mia'',
       lastName = ''Member'', role = MEMBER \<rparr>
     \<lparr> i_title = Some ''Pay rent'', i_description = None, i_status = None,
       i_priority = None, i_dueDate = Some 10, i_tags = None, i_assignee = None,
       i_createdBy = None \<rparr>
     1 0 \<lparr> users = [], tasks = [], activityLogs = [] \<rparr>
   = Inr \<lparr> users = [],
       tasks = [\<lparr> task_id = 1, title = Some ''Pay rent'', description = None,
                  status = ''todo'', priority = ''medium'', dueDate = Some 10, tags = [],
                  assignee = Some 2, createdBy = Some 2 \<rparr>],
       activityLogs =
         [\<lparr> taskId = 1, userId = 2, action = CREATED, changes = None, timestamp = 0 \<rparr>] \<rparr>
   \<and> createTask
     \<lparr> user_id = 2, email = ''mia@example.org'', passwordHash = ''h'', firstName = ''Mia'',
       lastName = ''Member'', role = MEMBER \<rparr>
     \<lparr> i_title = Some ''Pay rent'', i_description = None, i_status = None,
       i_priority = None, i_dueDate = Some 10, i_tags = None, i_assignee = Some 9,
       i_createdBy = None \<rparr>
     1 0 \<lparr> users = [], tasks = [], activityLogs = [] \<rparr>
   = Inl (AppError 403 ''Members can only assign tasks to themselves'')"
proof -
  let ?M = "\<lparr> user_id = 2, email = ''mia@example.org'', passwordHash = ''h'',
       firstName = ''Mia'', lastName = ''Member'', role = MEMBER \<rparr>"
  let ?I = "\<lparr> i_title = Some ''Pay rent'', i_description = None, i_status = None,
       i_priority = None, i_dueDate = Some (10::int), i_tags = None,
       i_assignee = (None :: nat option), i_createdBy = (None :: nat option) \<rparr>"
  let ?J = "?I\<lparr> i_assignee := Some 9 \<rparr>"
  let ?S = "\<lparr> users = [], tasks = [], activityLogs = [] \<rparr>"
  let ?U = "\<lparr> c_id = ''m2'', c_role = ''member'' \<rparr>"
  let ?F = "\<lparr> f_title = ''Pay rent'', f_description = '''', f_status = ''todo'',
       f_priority = ''medium'', f_dueDate = '''', f_tags = [], f_assigneeId = ''a9'' \<rparr>"
  let ?D = "\<lparr> task_id = 1, title = Some ''Pay rent'', description = None,
                  status = ''todo'', priority = ''medium'', dueDate = Some 10, tags = [],
                  assignee = Some 2, createdBy = Some 2 \<rparr>"
  have m: "role ?M = MEMBER" by simp
  note mt = member_task_assigned_to_self[OF m, of _ 1 0 ?S]
  have fe: "form_errors ?F = []" by code_simp
  have "c_role ?U = ''member''" by simp
  then have h: "handleSubmit (Some ?U) ?F
      = Inr \<lparr> s_title = ''Pay rent'', s_description = '''', s_status = ''todo'',
           s_priority = ''medium'', s_dueDate = None, s_tags = [], s_assigneeId = ''m2'' \<rparr>"
    using mt[of ?I] fe by simp
  have tc: "Task_create 0 1 (?I\<lparr> i_assignee := Some (user_id ?M),
                                   i_createdBy := Some (user_id ?M) \<rparr>)
      = Inr \<lparr> doc = ?D, activePaths = [(''title'', Require), (''assignee'', Require),
                                        (''createdBy'', Require)] \<rparr>"
    by code_simp
  have good: "createTask ?M ?I 1 0 ?S
   = Inr \<lparr> users = [], tasks = [?D],
       activityLogs =
         [\<lparr> taskId = 1, userId = 2, action = CREATED, changes = None, timestamp = 0 \<rparr>] \<rparr>"
    using mt[of ?I] tc by simp
  have bad: "createTask ?M ?J 1 0 ?S
      = Inl (AppError 403 ''Members can only assign tasks to themselves'')"
    using mt[of ?J] by (simp add: PermissionError_def)
  show ?thesis using h good bad by simp
qed

section \<open>Deleting a task\<close>

text \<open>
  C4: a member's attempt to delete a task fails with a PermissionError, a 403, whatever the
  task and whoever created it or is assigned to it, and changes nothing; an admin's
  attempt to delete an existing task succeeds and removes it.
\<close>

theorem delete_task_admin_only:
  "(role actor = MEMBER \<longrightarrow>
      (\<exists>msg. deleteTask actor tid now st = Inl (PermissionError msg))
      \<and> (\<forall>e. deleteTask actor tid now st = Inl e \<longrightarrow> errorHandler_statusCode e = 403)
      \<and> state_after st (deleteTask actor tid now st) = st)
   \<and> (role actor = ADMIN \<and> (\<exists>t \<in> set (tasks st). task_id t = tid) \<longrightarrow>
      (\<exists>st'. deleteTask actor tid now st = Inr st'
         \<and> tasks st' = filter (\<lambda>t. task_id t \<noteq> tid) (tasks st)
         \<and> (\<forall>t \<in> set (tasks st'). task_id t \<noteq> tid)))"
proof (intro conjI impI)
  assume m: "role actor = MEMBER"
  then have r: "deleteTask actor tid now st = Inl (PermissionError ''Only admins can delete tasks'')"
    by (simp add: deleteTask_def)
  then show "\<exists>msg. deleteTask actor tid now st = Inl (PermissionError msg)" by blast
  show "\<forall>e. deleteTask actor tid now st = Inl e \<longrightarrow> errorHandler_statusCode e = 403"
    using r by (simp add: PermissionError_def errorHandler_statusCode_def)
  show "state_after st (deleteTask actor tid now st) = st"
    using r by (simp add: state_after_def)
next
  assume a: "role actor = ADMIN \<and> (\<exists>t \<in> set (tasks st). task_id t = tid)"
  then obtain t where "find (\<lambda>t. task_id t = tid) (tasks st) = Some t"
    using find_Some_if_member[of "tasks st" "\<lambda>t. task_id t = tid"] by blast
  then show "\<exists>st'. deleteTask actor tid now st = Inr st'
         \<and> tasks st' = filter (\<lambda>t. task_id t \<noteq> tid) (tasks st)
         \<and> (\<forall>t \<in> set (tasks st'). task_id t \<noteq> tid)"
    using a by (simp add: deleteTask_def)
qed

theorem delete_task_admin_only_witness:
  "deleteTask
     \<lparr> user_id = 2, email = ''mia@example.org'', passwordHash = ''h'', firstName = ''Mia'',
       lastName = ''Member'', role = MEMBER \<rparr>
     1 60
     \<lparr> users = [],
       tasks = [\<lparr> task_id = 1, title = Some ''Pay rent'', description = None,
                  status = ''todo'', priority = ''medium'', dueDate = None, tags = [],
                  assignee = Some 2, createdBy = Some 2 \<rparr>],
       activityLogs = [] \<rparr>
   = Inl (AppError 403 ''Only admins can delete tasks'')
   \<and> errorHandler_statusCode (AppError 403 ''Only admins can delete tasks'') = 403
   \<and> deleteTask
     \<lparr> user_id = 9, email = ''root@example.org'', passwordHash = ''h'', firstName = ''Ada'',
       lastName = ''Admin'', role = ADMIN \<rparr>
     1 60
     \<lparr> users = [],
       tasks = [\<lparr> task_id = 1, title = Some ''Pay rent'', description = None,
                  status = ''todo'', priority = ''medium'', dueDate = None, tags = [],
                  assignee = Some 2, createdBy = Some 2 \<rparr>],
       activityLogs = [] \<rparr>
   = Inr \<lparr> users = [], tasks = [],
       activityLogs =
         [\<lparr> taskId = 1, userId = 9, action = DELETED, changes = None, timestamp = 60 \<rparr>] \<rparr>"
proof -
  let ?M = "\<lparr> user_id = 2, email = ''mia@example.org'', passwordHash = ''h'',
       firstName = ''Mia'', lastName = ''Member'', role = MEMBER \<rparr>"
  let ?A = "\<lparr> user_id = 9, email = ''root@example.org'', passwordHash = ''h'',
       firstName = ''Ada'', lastName = ''Admin'', role = ADMIN \<rparr>"
  let ?S = "\<lparr> users = [],
       tasks = [\<lparr> task_id = 1, title = Some ''Pay rent'', description = None,
                  status = ''todo'', priority = ''medium'', dueDate = None, tags = [],
                  assignee = Some 2, createdBy = Some 2 \<rparr>],
       activityLogs = [] \<rparr>"
  have "\<forall>e. deleteTask ?M 1 60 ?S = Inl e \<longrightarrow> errorHandler_statusCode e = 403"
    using delete_task_admin_only[of ?M 1 60 ?S] by simp
  moreover have m: "deleteTask ?M 1 60 ?S = Inl (AppError 403 ''Only admins can delete tasks'')"
    by (simp add: deleteTask_def PermissionError_def)
  ultimately have c: "errorHandler_statusCode (AppError 403 ''Only admins can delete tasks'') = 403"
    by blast
  obtain st' where ok: "deleteTask ?A 1 60 ?S = Inr st'" and "tasks st' = []"
    using delete_task_admin_only[of ?A 1 60 ?S] by auto
  then have a: "deleteTask ?A 1 60 ?S = Inr \<lparr> users = [], tasks = [],
       activityLogs =
         [\<lparr> taskId = 1, userId = 9, action = DELETED, changes = None, timestamp = 60 \<rparr>] \<rparr>"
    by (simp add: deleteTask_def logActivity_def)
  show ?thesis using m c a by simp
qed

section \<open>User management\<close>

lemma updateUserRole_self:
  "updateUserRole actor (user_id actor) r st =
     (if role actor = ADMIN then Inl (AppError 400 ''You cannot change your own role'')
      else Inl (PermissionError ''Admin access required''))"
  by (simp add: updateUserRole_def)

lemma deleteUser_self:
  "deleteUser actor (user_id actor) st =
     (if role actor = ADMIN then Inl (AppError 400 ''You cannot delete your own account'')
      else Inl (PermissionError ''Admin access required''))"
  by (simp add: deleteUser_def)

text \<open>
  C7: a request to change the actor's own role, or to delete the actor's own account, is
  denied for every actor and leaves the database as it was; for an admin the denial is the
  400 the tests expect.
\<close>

theorem self_role_change_and_self_delete_denied:
  "isl (updateUserRole actor (user_id actor) r st)
   \<and> state_after st (updateUserRole actor (user_id actor) r st) = st
   \<and> isl (deleteUser actor (user_id actor) st)
   \<and> state_after st (deleteUser actor (user_id actor) st) = st
   \<and> (role actor = ADMIN \<longrightarrow>
        updateUserRole actor (user_id actor) r st
          = Inl (AppError 400 ''You cannot change your own role'')
        \<and> deleteUser actor (user_id actor) st
          = Inl (AppError 400 ''You cannot delete your own account''))"
  by (simp add: updateUserRole_self deleteUser_self state_after_def)

theorem self_role_change_and_self_delete_denied_witness:
  "updateUserRole
     \<lparr> user_id = 9, email = ''root@example.org'', passwordHash = ''h'', firstName = ''Ada'',
       lastName = ''Admin'', role = ADMIN \<rparr>
     9 MEMBER
     \<lparr> users = [\<lparr> user_id = 9, email = ''root@example.org'', passwordHash = ''h'',
                  firstName = ''Ada'', lastName = ''Admin'', role = ADMIN \<rparr>],
       tasks = [], activityLogs = [] \<rparr>
   = Inl (AppError 400 ''You cannot change your own role'')
   \<and> deleteUser
     \<lparr> user_id = 9, email = ''root@example.org'', passwordHash = ''h'', firstName = ''Ada'',
       lastName = ''Admin'', role = ADMIN \<rparr>
     9
     \<lparr> users = [\<lparr> user_id = 9, email = ''root@example.org'', passwordHash = ''h'',
                  firstName = ''Ada'', lastName = ''Admin'', role = ADMIN \<rparr>],
       tasks = [], activityLogs = [] \<rparr>
   = Inl (AppError 400 ''You cannot delete your own account'')"
  using self_role_change_and_self_delete_denied
    [of "\<lparr> user_id = 9, email = ''root@example.org'', passwordHash = ''h'',
           firstName = ''Ada'', lastName = ''Admin'', role = ADMIN \<rparr>"
        MEMBER
        "\<lparr> users = [\<lparr> user_id = 9, email = ''root@example.org'', passwordHash = ''h'',
                  firstName = ''Ada'', lastName = ''Admin'', role = ADMIN \<rparr>],
           tasks = [], activityLogs = [] \<rparr>"]
  by simp

text \<open>
  C8: when an admin deletes the account of another, existing user, the deletion fails, and
  changes nothing, if some task is assigned to that user, and succeeds, removing the
  account and no task, if none is.
\<close>

theorem delete_user_needs_no_assigned_tasks:
  assumes "role actor = ADMIN" and "target \<noteq> user_id actor"
    and "\<exists>u \<in> set (users st). user_id u = target"
  shows "((\<exists>t \<in> set (tasks st). assignee t = Some target) \<longrightarrow>
            deleteUser actor target st
              = Inl (AppError 400 ''Cannot delete user with assigned tasks'')
            \<and> state_after st (deleteUser actor target st) = st)
     \<and> (\<not> (\<exists>t \<in> set (tasks st). assignee t = Some target) \<longrightarrow>
            (\<exists>st'. deleteUser actor target st = Inr st'
               \<and> users st' = filter (\<lambda>u. user_id u \<noteq> target) (users st)
               \<and> (\<forall>u \<in> set (users st'). user_id u \<noteq> target)
               \<and> tasks st' = tasks st))"
proof -
  obtain u where u: "find (\<lambda>u. user_id u = target) (users st) = Some u"
    using find_Some_if_member[of "users st" "\<lambda>u. user_id u = target"] assms(3) by blast
  show ?thesis
  proof (cases "\<exists>t \<in> set (tasks st). assignee t = Some target")
    case True
    then have "assignedTasks target st \<noteq> []"
      by (auto simp: assignedTasks_def filter_empty_conv)
    then have "deleteUser actor target st
        = Inl (AppError 400 ''Cannot delete user with assigned tasks'')"
      using assms(1,2) u by (simp add: deleteUser_def)
    then show ?thesis using True by (simp add: state_after_def)
  next
    case False
    then have "assignedTasks target st = []"
      by (auto simp: assignedTasks_def filter_empty_conv)
    then have "deleteUser actor target st
        = Inr (st\<lparr> users := filter (\<lambda>x. user_id x \<noteq> target) (users st) \<rparr>)"
      using assms(1,2) u by (simp add: deleteUser_def)
    then show ?thesis using False by simp
  qed
qed

theorem delete_user_needs_no_assigned_tasks_witness:
  "deleteUser
     \<lparr> user_id = 9, email = ''root@example.org'', passwordHash = ''h'', firstName = ''Ada'',
       lastName = ''Admin'', role = ADMIN \<rparr>
     2
     \<lparr> users = [\<lparr> user_id = 2, email = ''mia@example.org'', passwordHash = ''h'',
                  firstName = ''Mia'', lastName = ''Member'', role = MEMBER \<rparr>],
       tasks = [\<lparr> task_id = 1, title = Some ''Pay rent'', description = None,
                  status = ''todo'', priority = ''medium'', dueDate = None, tags = [],
                  assignee = Some 2, createdBy = Some 9 \<rparr>],
       activityLogs = [] \<rparr>
   = Inl (AppError 400 ''Cannot delete user with assigned tasks'')
   \<and> deleteUser
     \<lparr> user_id = 9, email = ''root@example.org'', passwordHash = ''h'', firstName = ''Ada'',
       lastName = ''Admin'', role = ADMIN \<rparr>
     2
     \<lparr> users = [\<lparr> user_id = 2, email = ''mia@example.org'', passwordHash = ''h'',
                  firstName = ''Mia'', lastName = ''Member'', role = MEMBER \<rparr>],
       tasks = [], activityLogs = [] \<rparr>
   = Inr \<lparr> users = [], tasks = [], activityLogs = [] \<rparr>"
proof -
  let ?A = "\<lparr> user_id = 9, email = ''root@example.org'', passwordHash = ''h'',
       firstName = ''Ada'', lastName = ''Admin'', role = ADMIN \<rparr>"
  let ?U = "\<lparr> user_id = 2, email = ''mia@example.org'', passwordHash = ''h'',
                  firstName = ''Mia'', lastName = ''Member'', role = MEMBER \<rparr>"
  let ?T = "\<lparr> task_id = 1, title = Some ''Pay rent'', description = None,
                  status = ''todo'', priority = ''medium'', dueDate = None, tags = [],
                  assignee = Some 2, createdBy = Some 9 \<rparr>"
  let ?S1 = "\<lparr> users = [?U], tasks = [?T], activityLogs = [] \<rparr>"
  let ?S0 = "\<lparr> users = [?U], tasks = [], activityLogs = [] \<rparr>"
  have a: "role ?A = ADMIN" by simp
  have b: "(2::nat) \<noteq> user_id ?A" by simp
  have c1: "\<exists>u \<in> set (users ?S1). user_id u = 2" by simp
  have c0: "\<exists>u \<in> set (users ?S0). user_id u = 2" by simp
  have r1: "deleteUser ?A 2 ?S1 = Inl (AppError 400 ''Cannot delete user with assigned tasks'')"
    using delete_user_needs_no_assigned_tasks[OF a b c1] by simp
  obtain st' where ok: "deleteUser ?A 2 ?S0 = Inr st'" and "users st' = []" and "tasks st' = []"
    using delete_user_needs_no_assigned_tasks[OF a b c0] by auto
  then have r0: "deleteUser ?A 2 ?S0 = Inr \<lparr> users = [], tasks = [], activityLogs = [] \<rparr>"
    by (simp add: deleteUser_def assignedTasks_def)
  show ?thesis using r1 r0 by simp
qed

end
